theory Spec2Isabelle
  imports Complex_Main "HOL-Library.Word"
begin

section \<open>Values of the native code\<close>

text \<open>
  The repository is a C++ audio classifier: \<^verbatim>\<open>ml_processor.h\<close> and \<^verbatim>\<open>ml_processor.cpp\<close>
  hold the class \<^verbatim>\<open>MLProcessor\<close> (constructor, destructor, \<^verbatim>\<open>processAudio\<close>), and
  \<^verbatim>\<open>jni_wrapper.cpp\<close> holds the three JNI entry points that hand a \<^verbatim>\<open>MLProcessor*\<close> to
  Java as a \<^verbatim>\<open>jlong\<close>.

  A native pointer (and the \<^verbatim>\<open>jlong\<close> handle cast from it) is an address, a natural number
  with 0 for \<^verbatim>\<open>nullptr\<close>. A \<^verbatim>\<open>float\<close> is a real number: the cast of an \<^verbatim>\<open>int16_t\<close>, the
  absolute value and the comparisons of the code are exact in binary32; the one inexact
  operation, the division, rounds its exact quotient with a function \<open>rnd\<close> that the
  definitions which divide take as a parameter. An \<^verbatim>\<open>int\<close> is a mathematical integer,
  and the places where C++ leaves its range are written out: a product of two \<^verbatim>\<open>int\<close>s
  wraps to 32 bits, and a negative size is converted to an unsigned one.
\<close>

type_synonym addr = nat
type_synonym float = real
type_synonym int16 = "16 word"

definition nullptr :: addr where
  "nullptr = 0"

definition MODEL_INPUT_LEN :: nat where
  "MODEL_INPUT_LEN = 512"

definition sizeof_float :: nat where
  "sizeof_float = 4"

definition INT_MIN :: int where
  "INT_MIN = - (2 ^ 31)"

definition INT_MAX :: int where
  "INT_MAX = 2 ^ 31 - 1"

text \<open>
  What ends a call without a return value: undefined behaviour of C++ (a call on a pointer
  that holds no live object, a read or write outside a buffer or through a null data
  pointer) and the exception \<^verbatim>\<open>std::length_error\<close> that \<^verbatim>\<open>std::vector\<close>
  throws for a size above \<^verbatim>\<open>max_size()\<close>. Running out of memory is not modelled.
\<close>

datatype fault =
    InvalidPointer
  | OutOfBoundsRead
  | OutOfBoundsWrite
  | NullPointerRead
  | NullPointerWrite
  | LengthError

datatype TfLiteStatus = kTfLiteOk | kTfLiteError

text \<open>
  The two logging sinks: \<^verbatim>\<open>LOG_INFO\<close>/\<^verbatim>\<open>LOG_ERROR\<close> of \<^verbatim>\<open>ml_processor.cpp\<close> print to standard
  output, \<^verbatim>\<open>LOGI\<close>/\<^verbatim>\<open>LOGE\<close> of \<^verbatim>\<open>jni_wrapper.cpp\<close> write to the Android log. A line is
  recorded by its format string.
\<close>

datatype log_line =
    PrintfInfo string
  | PrintfError string
  | AndroidInfo string
  | AndroidError string

section \<open>The TensorFlow Lite C API\<close>

text \<open>
  The library is not part of the repository; it is modelled by the contract of the C API
  functions the code calls. A tensor has its dimension sizes, its size in bytes and its
  buffer of 4-byte cells (\<open>None\<close>: \<^verbatim>\<open>data.raw\<close> is null, no buffer has been allocated).
\<close>

record tensor =
  dims :: "int list"
  bytes :: nat
  data :: "float list option"

text \<open>
  A parsed model file fixes whether an interpreter can be built from it, whether its
  tensors can be allocated, its input and output tensors, and the forward pass (\<open>None\<close>:
  the pass reports an error; otherwise the output tensors it leaves).
\<close>

record graph =
  buildable :: bool
  allocatable :: bool
  g_inputs :: "tensor list"
  g_outputs :: "tensor list"
  g_forward :: "tensor list \<Rightarrow> tensor list option"

record interp =
  ready :: bool
  can_allocate :: bool
  inputs :: "tensor list"
  outputs :: "tensor list"
  forward :: "tensor list \<Rightarrow> tensor list option"

record MLProcessor =
  model :: addr
  interpreter :: addr
  options :: addr

text \<open>
  The state of the native side: the file system as the model loader sees it, the live
  objects of each kind by address, the next address the allocator hands out, and the log.
\<close>

record world =
  files :: "string \<Rightarrow> graph option"
  models :: "addr \<Rightarrow> graph option"
  opts :: "addr \<Rightarrow> int option"
  interps :: "addr \<Rightarrow> interp option"
  procs :: "addr \<Rightarrow> MLProcessor option"
  next_addr :: addr
  logs :: "log_line list"

definition LOG_INFO :: "world \<Rightarrow> string \<Rightarrow> world" where
  "LOG_INFO w fmt = w\<lparr>logs := logs w @ [PrintfInfo fmt]\<rparr>"

definition LOG_ERROR :: "world \<Rightarrow> string \<Rightarrow> world" where
  "LOG_ERROR w fmt = w\<lparr>logs := logs w @ [PrintfError fmt]\<rparr>"

definition LOGI :: "world \<Rightarrow> string \<Rightarrow> world" where
  "LOGI w fmt = w\<lparr>logs := logs w @ [AndroidInfo fmt]\<rparr>"

definition LOGE :: "world \<Rightarrow> string \<Rightarrow> world" where
  "LOGE w fmt = w\<lparr>logs := logs w @ [AndroidError fmt]\<rparr>"

definition TfLiteModelCreateFromFile :: "world \<Rightarrow> string \<Rightarrow> addr \<times> world" where
  "TfLiteModelCreateFromFile w path =
     (case files w path of
        None \<Rightarrow> (nullptr, w)
      | Some g \<Rightarrow>
          (next_addr w,
           w\<lparr>models := (models w)(next_addr w \<mapsto> g), next_addr := next_addr w + 1\<rparr>))"

definition TfLiteInterpreterOptionsCreate :: "world \<Rightarrow> addr \<times> world" where
  "TfLiteInterpreterOptionsCreate w =
     (next_addr w,
      w\<lparr>opts := (opts w)(next_addr w \<mapsto> - 1), next_addr := next_addr w + 1\<rparr>)"

definition TfLiteInterpreterOptionsSetNumThreads :: "world \<Rightarrow> addr \<Rightarrow> int \<Rightarrow> fault + world" where
  "TfLiteInterpreterOptionsSetNumThreads w opt num_threads =
     (case opts w opt of
        None \<Rightarrow> Inl InvalidPointer
      | Some _ \<Rightarrow> Inr (w\<lparr>opts := (opts w)(opt \<mapsto> num_threads)\<rparr>))"

definition TfLiteInterpreterCreate :: "world \<Rightarrow> addr \<Rightarrow> addr \<Rightarrow> fault + (addr \<times> world)" where
  "TfLiteInterpreterCreate w m opt =
     (case models w m of
        None \<Rightarrow> Inl InvalidPointer
      | Some g \<Rightarrow>
          (case opts w opt of
             None \<Rightarrow> Inl InvalidPointer
           | Some _ \<Rightarrow>
               if buildable g then
                 Inr (next_addr w,
                      w\<lparr>interps := (interps w)(next_addr w \<mapsto>
                           \<lparr>ready = False, can_allocate = allocatable g,
                            inputs = map (\<lambda>t. t\<lparr>data := None\<rparr>) (g_inputs g),
                            outputs = map (\<lambda>t. t\<lparr>data := None\<rparr>) (g_outputs g),
                            forward = g_forward g\<rparr>),
                         next_addr := next_addr w + 1\<rparr>)
               else Inr (nullptr, w)))"

definition allocate_buffer :: "tensor \<Rightarrow> tensor" where
  "allocate_buffer t = t\<lparr>data := Some (replicate (bytes t div sizeof_float) 0)\<rparr>"

definition TfLiteInterpreterAllocateTensors :: "world \<Rightarrow> addr \<Rightarrow> fault + (TfLiteStatus \<times> world)" where
  "TfLiteInterpreterAllocateTensors w i =
     (case interps w i of
        None \<Rightarrow> Inl InvalidPointer
      | Some it \<Rightarrow>
          if can_allocate it then
            Inr (kTfLiteOk,
                 w\<lparr>interps := (interps w)(i \<mapsto>
                      it\<lparr>ready := True,
                         inputs := map allocate_buffer (inputs it),
                         outputs := map allocate_buffer (outputs it)\<rparr>)\<rparr>)
          else Inr (kTfLiteError, w))"

definition TfLiteInterpreterDelete :: "world \<Rightarrow> addr \<Rightarrow> fault + world" where
  "TfLiteInterpreterDelete w i =
     (case interps w i of
        None \<Rightarrow> Inl InvalidPointer
      | Some _ \<Rightarrow> Inr (w\<lparr>interps := (interps w)(i := None)\<rparr>))"

definition TfLiteInterpreterOptionsDelete :: "world \<Rightarrow> addr \<Rightarrow> fault + world" where
  "TfLiteInterpreterOptionsDelete w opt =
     (case opts w opt of
        None \<Rightarrow> Inl InvalidPointer
      | Some _ \<Rightarrow> Inr (w\<lparr>opts := (opts w)(opt := None)\<rparr>))"

definition TfLiteModelDelete :: "world \<Rightarrow> addr \<Rightarrow> fault + world" where
  "TfLiteModelDelete w m =
     (case models w m of
        None \<Rightarrow> Inl InvalidPointer
      | Some _ \<Rightarrow> Inr (w\<lparr>models := (models w)(m := None)\<rparr>))"

text \<open>
  A tensor pointer obtained from an interpreter points into that interpreter. The getters
  return the tensor the pointer refers to (\<open>None\<close> for a null pointer), and a write through
  the input pointer is stored back with \<open>store_input\<close>.
\<close>

definition TfLiteInterpreterGetInputTensor :: "world \<Rightarrow> addr \<Rightarrow> nat \<Rightarrow> fault + tensor option" where
  "TfLiteInterpreterGetInputTensor w i k =
     (case interps w i of
        None \<Rightarrow> Inl InvalidPointer
      | Some it \<Rightarrow> Inr (if k < length (inputs it) then Some (inputs it ! k) else None))"

definition TfLiteInterpreterGetOutputTensor :: "world \<Rightarrow> addr \<Rightarrow> nat \<Rightarrow> fault + tensor option" where
  "TfLiteInterpreterGetOutputTensor w i k =
     (case interps w i of
        None \<Rightarrow> Inl InvalidPointer
      | Some it \<Rightarrow> Inr (if k < length (outputs it) then Some (outputs it ! k) else None))"

definition store_input :: "world \<Rightarrow> addr \<Rightarrow> nat \<Rightarrow> tensor \<Rightarrow> world" where
  "store_input w i k t =
     (case interps w i of
        None \<Rightarrow> w
      | Some it \<Rightarrow> w\<lparr>interps := (interps w)(i \<mapsto> it\<lparr>inputs := (inputs it)[k := t]\<rparr>)\<rparr>)"

text \<open>
  \<^verbatim>\<open>TfLiteTensorCopyFromBuffer\<close> and \<^verbatim>\<open>TfLiteTensorCopyToBuffer\<close> return an error status
  without copying when the byte count differs from the tensor's, and otherwise copy that
  many bytes between the caller's buffer and the tensor's.
\<close>

definition TfLiteTensorCopyFromBuffer ::
    "tensor \<Rightarrow> float list \<Rightarrow> nat \<Rightarrow> fault + (TfLiteStatus \<times> tensor)" where
  "TfLiteTensorCopyFromBuffer t input_data input_data_size =
     (if bytes t \<noteq> input_data_size then Inr (kTfLiteError, t)
      else
        (case data t of
           None \<Rightarrow> Inl NullPointerWrite
         | Some cells \<Rightarrow>
             if length input_data * sizeof_float < input_data_size then Inl OutOfBoundsRead
             else if length cells * sizeof_float < input_data_size then Inl OutOfBoundsWrite
             else
               Inr (kTfLiteOk,
                    t\<lparr>data := Some (take (input_data_size div sizeof_float) input_data
                                     @ drop (input_data_size div sizeof_float) cells)\<rparr>)))"

definition TfLiteTensorCopyToBuffer ::
    "tensor \<Rightarrow> float list \<Rightarrow> nat \<Rightarrow> fault + (TfLiteStatus \<times> float list)" where
  "TfLiteTensorCopyToBuffer t output_data output_data_size =
     (if bytes t \<noteq> output_data_size then Inr (kTfLiteError, output_data)
      else
        (case data t of
           None \<Rightarrow> Inl NullPointerRead
         | Some cells \<Rightarrow>
             if length cells * sizeof_float < output_data_size then Inl OutOfBoundsRead
             else if length output_data * sizeof_float < output_data_size then Inl OutOfBoundsWrite
             else
               Inr (kTfLiteOk,
                    take (output_data_size div sizeof_float) cells
                    @ drop (output_data_size div sizeof_float) output_data)))"

definition TfLiteInterpreterInvoke :: "world \<Rightarrow> addr \<Rightarrow> fault + (TfLiteStatus \<times> world)" where
  "TfLiteInterpreterInvoke w i =
     (case interps w i of
        None \<Rightarrow> Inl InvalidPointer
      | Some it \<Rightarrow>
          if \<not> ready it then Inr (kTfLiteError, w)
          else
            (case forward it (inputs it) of
               None \<Rightarrow> Inr (kTfLiteError, w)
             | Some outs \<Rightarrow>
                 Inr (kTfLiteOk, w\<lparr>interps := (interps w)(i \<mapsto> it\<lparr>outputs := outs\<rparr>)\<rparr>)))"

definition TfLiteTensorNumDims :: "tensor \<Rightarrow> int" where
  "TfLiteTensorNumDims t = int (length (dims t))"

definition TfLiteTensorDim :: "tensor \<Rightarrow> nat \<Rightarrow> int" where
  "TfLiteTensorDim t i = dims t ! i"

section \<open>ml_processor.cpp\<close>

subsection \<open>Constructor and destructor\<close>

text \<open>
  \<^verbatim>\<open>MLProcessor::MLProcessor(const char* modelPath)\<close>, lines 47--94. The class declares its
  three pointer members without initialisers and the constructor has no initialiser list,
  so the members hold whatever the object's storage held until the body assigns them:
  \<open>storage\<close> is that content.
\<close>

definition MLProcessor_ctor :: "MLProcessor \<Rightarrow> world \<Rightarrow> string \<Rightarrow> fault + (MLProcessor \<times> world)" where
  "MLProcessor_ctor storage w modelPath =
     (case TfLiteModelCreateFromFile w modelPath of
        (m, w1) \<Rightarrow>
          if m = nullptr then
            Inr (storage\<lparr>model := m\<rparr>, LOG_ERROR w1 ''Failed to load model from %s'')
          else
            (case TfLiteInterpreterOptionsCreate w1 of
               (opt, w2) \<Rightarrow>
                 (case TfLiteInterpreterOptionsSetNumThreads w2 opt 2 of
                    Inl e \<Rightarrow> Inl e
                  | Inr w3 \<Rightarrow>
                      (case TfLiteInterpreterCreate w3 m opt of
                         Inl e \<Rightarrow> Inl e
                       | Inr (i, w4) \<Rightarrow>
                           if i = nullptr then
                             Inr (storage\<lparr>model := m, options := opt, interpreter := i\<rparr>,
                                  LOG_ERROR w4 ''Failed to create interpreter'')
                           else
                             (case TfLiteInterpreterAllocateTensors w4 i of
                                Inl e \<Rightarrow> Inl e
                              | Inr (st, w5) \<Rightarrow>
                                  Inr (storage\<lparr>model := m, options := opt, interpreter := i\<rparr>,
                                       LOG_INFO
                                         (if st \<noteq> kTfLiteOk
                                          then LOG_ERROR w5 ''Failed to allocate tensors''
                                          else w5)
                                         ''Model loaded successfully from %s''))))))"

text \<open>\<^verbatim>\<open>MLProcessor::~MLProcessor()\<close>, lines 102--111.\<close>

definition MLProcessor_dtor :: "MLProcessor \<Rightarrow> world \<Rightarrow> fault + world" where
  "MLProcessor_dtor this w =
     (case (if interpreter this \<noteq> nullptr then TfLiteInterpreterDelete w (interpreter this)
            else Inr w) of
        Inl e \<Rightarrow> Inl e
      | Inr w1 \<Rightarrow>
          (case (if options this \<noteq> nullptr then TfLiteInterpreterOptionsDelete w1 (options this)
                 else Inr w1) of
             Inl e \<Rightarrow> Inl e
           | Inr w2 \<Rightarrow>
               if model this \<noteq> nullptr then TfLiteModelDelete w2 (model this) else Inr w2))"

subsection \<open>Preprocessing: lines 154--170 of processAudio\<close>

text \<open>
  \<^verbatim>\<open>std::vector<float> floatData(length)\<close>: the \<^verbatim>\<open>int\<close> is converted to the unsigned size
  type, so a negative length is a size above \<^verbatim>\<open>max_size()\<close> and the constructor throws;
  otherwise the vector holds \<^verbatim>\<open>length\<close> zeros.
\<close>

definition vector_float :: "int \<Rightarrow> fault + float list" where
  "vector_float n = (if n < 0 then Inl LengthError else Inr (replicate (nat n) 0))"

text \<open>
  \<^verbatim>\<open>result.resize(outputSize)\<close> on a vector: the same conversion; a longer size appends
  zeros, a shorter one truncates.
\<close>

definition vector_resize :: "float list \<Rightarrow> int \<Rightarrow> fault + float list" where
  "vector_resize v n =
     (if n < 0 then Inl LengthError
      else Inr (take (nat n) v @ replicate (nat n - length v) 0))"

definition static_cast_float :: "int16 \<Rightarrow> float" where
  "static_cast_float s = real_of_int (sint s)"

definition fdiv :: "(real \<Rightarrow> real) \<Rightarrow> float \<Rightarrow> float \<Rightarrow> float" where
  "fdiv rnd x y = rnd (x / y)"

text \<open>The first loop, lines 156--163: cast each sample and track the largest magnitude.\<close>

function convert_loop ::
    "int16 list \<Rightarrow> int \<Rightarrow> nat \<Rightarrow> float list \<Rightarrow> float \<Rightarrow> fault + (float list \<times> float)" where
  "convert_loop audioData len i floatData maxAmplitude =
     (if i < MODEL_INPUT_LEN \<and> int i < len then
        if length audioData \<le> i then Inl OutOfBoundsRead
        else if length floatData \<le> i then Inl OutOfBoundsWrite
        else
          convert_loop audioData len (Suc i)
            (floatData[i := static_cast_float (audioData ! i)])
            (if \<bar>static_cast_float (audioData ! i)\<bar> > maxAmplitude
             then \<bar>static_cast_float (audioData ! i)\<bar> else maxAmplitude)
      else Inr (floatData, maxAmplitude))"
  by pat_completeness auto
termination
  by (relation "measure (\<lambda>(audioData, len, i, floatData, maxAmplitude). MODEL_INPUT_LEN - i)") auto

declare convert_loop.simps [simp del]

text \<open>The second loop, lines 167--169: divide each converted sample by the peak.\<close>

function normalize_loop ::
    "(real \<Rightarrow> real) \<Rightarrow> int \<Rightarrow> nat \<Rightarrow> float list \<Rightarrow> float \<Rightarrow> fault + float list" where
  "normalize_loop rnd len i floatData maxAmplitude =
     (if i < MODEL_INPUT_LEN \<and> int i < len then
        if length floatData \<le> i then Inl OutOfBoundsWrite
        else
          normalize_loop rnd len (Suc i)
            (floatData[i := fdiv rnd (floatData ! i) maxAmplitude]) maxAmplitude
      else Inr floatData)"
  by pat_completeness auto
termination
  by (relation "measure (\<lambda>(rnd, len, i, floatData, maxAmplitude). MODEL_INPUT_LEN - i)") auto

declare normalize_loop.simps [simp del]

text \<open>
  Lines 154--170 as one function (the spec's \<open>normalize\<close>): the buffer and the peak it
  leaves. The division loop runs only for a positive peak.
\<close>

definition normalize :: "(real \<Rightarrow> real) \<Rightarrow> int16 list \<Rightarrow> int \<Rightarrow> fault + (float list \<times> float)" where
  "normalize rnd audioData len =
     (case vector_float len of
        Inl e \<Rightarrow> Inl e
      | Inr floatData0 \<Rightarrow>
          (case convert_loop audioData len 0 floatData0 0 of
             Inl e \<Rightarrow> Inl e
           | Inr (floatData1, maxAmplitude) \<Rightarrow>
               if maxAmplitude > 0 then
                 (case normalize_loop rnd len 0 floatData1 maxAmplitude of
                    Inl e \<Rightarrow> Inl e
                  | Inr floatData2 \<Rightarrow> Inr (floatData2, maxAmplitude))
               else Inr (floatData1, maxAmplitude)))"

subsection \<open>The output size: lines 209--212\<close>

text \<open>
  \<^verbatim>\<open>outputSize *= TfLiteTensorDim(outputTensor, i)\<close> multiplies two \<^verbatim>\<open>int\<close>s. A product
  outside the range of \<^verbatim>\<open>int\<close> is signed overflow, which C++ leaves undefined; the compiled
  code keeps the low 32 bits of the product, read as two's complement, and so does the
  model.
\<close>

definition wrap_int :: "int \<Rightarrow> int" where
  "wrap_int x = (x + 2 ^ 31) mod 2 ^ 32 - 2 ^ 31"

definition mul_int :: "int \<Rightarrow> int \<Rightarrow> int" where
  "mul_int a b = wrap_int (a * b)"

function outputSize_loop :: "tensor \<Rightarrow> nat \<Rightarrow> int \<Rightarrow> int" where
  "outputSize_loop outputTensor i outputSize =
     (if int i < TfLiteTensorNumDims outputTensor then
        outputSize_loop outputTensor (Suc i)
          (mul_int outputSize (TfLiteTensorDim outputTensor i))
      else outputSize)"
  by pat_completeness auto
termination
  by (relation "measure (\<lambda>(outputTensor, i, outputSize). length (dims outputTensor) - i)")
     (auto simp: TfLiteTensorNumDims_def)

declare outputSize_loop.simps [simp del]

subsection \<open>processAudio, lines 128--223\<close>

definition processAudio ::
    "(real \<Rightarrow> real) \<Rightarrow> MLProcessor \<Rightarrow> world \<Rightarrow> int16 list \<Rightarrow> int \<Rightarrow> fault + (float list \<times> world)" where
  "processAudio rnd this w audioData len =
     (if interpreter this = nullptr then Inr ([], LOG_ERROR w ''Interpreter not initialized'')
      else
        (case TfLiteInterpreterGetInputTensor w (interpreter this) 0 of
           Inl e \<Rightarrow> Inl e
         | Inr None \<Rightarrow> Inr ([], LOG_ERROR w ''Failed to get input tensor'')
         | Inr (Some inputTensor) \<Rightarrow>
             (case normalize rnd audioData len of
                Inl e \<Rightarrow> Inl e
              | Inr (floatData, maxAmplitude) \<Rightarrow>
                  (case TfLiteTensorCopyFromBuffer inputTensor floatData
                          (MODEL_INPUT_LEN * sizeof_float) of
                     Inl e \<Rightarrow> Inl e
                   | Inr (copied, inputTensor') \<Rightarrow>
                       (case TfLiteInterpreterInvoke
                               (store_input
                                  (LOG_INFO w ''Audio normalization - Max amplitude: %f'')
                                  (interpreter this) 0 inputTensor')
                               (interpreter this) of
                          Inl e \<Rightarrow> Inl e
                        | Inr (st, w3) \<Rightarrow>
                            if st \<noteq> kTfLiteOk then
                              Inr ([], LOG_ERROR w3 ''Failed to invoke interpreter'')
                            else
                              (case TfLiteInterpreterGetOutputTensor w3 (interpreter this) 0 of
                                 Inl e \<Rightarrow> Inl e
                               | Inr None \<Rightarrow> Inr ([], LOG_ERROR w3 ''Failed to get output tensor'')
                               | Inr (Some outputTensor) \<Rightarrow>
                                   (case vector_resize []
                                           (outputSize_loop outputTensor 0 1) of
                                      Inl e \<Rightarrow> Inl e
                                    | Inr result \<Rightarrow>
                                        (case TfLiteTensorCopyToBuffer outputTensor result
                                                (nat (outputSize_loop outputTensor 0 1)
                                                 * sizeof_float) of
                                           Inl e \<Rightarrow> Inl e
                                         | Inr (copied_out, result') \<Rightarrow>
                                             Inr (result', w3)))))))))"

section \<open>jni_wrapper.cpp\<close>

text \<open>
  The JNI environment is outside the repository. Three of its calls can return null, and the
  code tests each result: whether they succeed is a field of the environment. A Java
  \<^verbatim>\<open>short[]\<close> is the list of its elements, a returned \<^verbatim>\<open>float[]\<close> is a list or the null
  reference \<open>None\<close>.
\<close>

record JNIEnv =
  GetStringUTFChars_ok :: bool
  GetShortArrayElements_ok :: bool
  NewFloatArray_ok :: bool

definition NewFloatArray :: "JNIEnv \<Rightarrow> nat \<Rightarrow> float list option" where
  "NewFloatArray env n = (if NewFloatArray_ok env then Some (replicate n 0) else None)"

text \<open>
  \<^verbatim>\<open>new MLProcessor(path)\<close>: the allocator hands out the object's storage, then the
  constructor runs on it. \<^verbatim>\<open>delete processor\<close>: the destructor runs, then the storage is
  released; on an address that holds no live object it is undefined.
\<close>

definition new_MLProcessor :: "MLProcessor \<Rightarrow> world \<Rightarrow> string \<Rightarrow> fault + (addr \<times> world)" where
  "new_MLProcessor storage w modelPath =
     (case MLProcessor_ctor storage (w\<lparr>next_addr := next_addr w + 1\<rparr>) modelPath of
        Inl e \<Rightarrow> Inl e
      | Inr (this, w1) \<Rightarrow> Inr (next_addr w, w1\<lparr>procs := (procs w1)(next_addr w \<mapsto> this)\<rparr>))"

definition delete_MLProcessor :: "world \<Rightarrow> addr \<Rightarrow> fault + world" where
  "delete_MLProcessor w processor =
     (case procs w processor of
        None \<Rightarrow> Inl InvalidPointer
      | Some this \<Rightarrow>
          (case MLProcessor_dtor this w of
             Inl e \<Rightarrow> Inl e
           | Inr w1 \<Rightarrow> Inr (w1\<lparr>procs := (procs w1)(processor := None)\<rparr>)))"

text \<open>\<^verbatim>\<open>nativeInit\<close>, lines 76--97.\<close>

definition nativeInit :: "JNIEnv \<Rightarrow> MLProcessor \<Rightarrow> world \<Rightarrow> string \<Rightarrow> fault + (addr \<times> world)" where
  "nativeInit env storage w modelPath =
     (if \<not> GetStringUTFChars_ok env then Inr (0, LOGE w ''Failed to get string from Java'')
      else new_MLProcessor storage (LOGI w ''Initializing MLProcessor with model: %s'') modelPath)"

text \<open>\<^verbatim>\<open>nativeProcessAudio\<close>, lines 117--161.\<close>

definition nativeProcessAudio ::
    "(real \<Rightarrow> real) \<Rightarrow> JNIEnv \<Rightarrow> world \<Rightarrow> addr \<Rightarrow> int16 list \<Rightarrow> fault + (float list option \<times> world)" where
  "nativeProcessAudio rnd env w handle audioData =
     (if handle = nullptr then Inr (NewFloatArray env 0, LOGE w ''Invalid processor handle'')
      else if int (length audioData) \<le> 0 then
        Inr (NewFloatArray env 0, LOGE w ''Empty audio data array'')
      else if \<not> GetShortArrayElements_ok env then
        Inr (NewFloatArray env 0,
             LOGE (LOGI w ''Processing %d audio samples'') ''Failed to get array elements'')
      else
        (case procs w handle of
           None \<Rightarrow> Inl InvalidPointer
         | Some processor \<Rightarrow>
             (case processAudio rnd processor (LOGI w ''Processing %d audio samples'')
                     audioData (int (length audioData)) of
                Inl e \<Rightarrow> Inl e
              | Inr (result, w1) \<Rightarrow>
                  Inr (case NewFloatArray env (length result) of
                         None \<Rightarrow> None
                       | Some output \<Rightarrow> Some result,
                       LOGI w1 ''Returned %zu predictions''))))"

text \<open>\<^verbatim>\<open>nativeClose\<close>, lines 180--192.\<close>

definition nativeClose :: "world \<Rightarrow> addr \<Rightarrow> fault + world" where
  "nativeClose w handle =
     (if handle \<noteq> nullptr then delete_MLProcessor (LOGI w ''Closing MLProcessor'') handle
      else Inr (LOGE w ''Attempted to close invalid processor handle''))"

section \<open>Observations on a call\<close>

text \<open>
  Every failure branch of \<^verbatim>\<open>processAudio\<close> prints a \<^verbatim>\<open>LOG_ERROR\<close> line before it returns
  the empty vector, and the success path prints none: a call took a failure branch exactly
  when the log it leaves has a new error line.
\<close>

definition logged_error :: "world \<Rightarrow> world \<Rightarrow> bool" where
  "logged_error w w' = (\<exists>fmt. PrintfError fmt \<in> set (drop (length (logs w)) (logs w')))"

text \<open>
  A processor owns live objects when each of its non-null members is the address of a
  live object of its kind.
\<close>

definition owns_live :: "world \<Rightarrow> MLProcessor \<Rightarrow> bool" where
  "owns_live w this =
     ((interpreter this = nullptr \<or> interps w (interpreter this) \<noteq> None) \<and>
      (options this = nullptr \<or> opts w (options this) \<noteq> None) \<and>
      (model this = nullptr \<or> models w (model this) \<noteq> None))"

section \<open>A device and its model files\<close>

text \<open>
  A classifier with one input of 512 floats and one output of 10 floats, a copy of it whose
  tensors cannot be allocated, a model whose output is a scalar (rank 0), and (below) a
  device that stores these and two more models and has no native object yet.
\<close>

definition classifier :: graph where
  "classifier =
     \<lparr>buildable = True, allocatable = True,
      g_inputs = [\<lparr>dims = [1, 512], bytes = 2048, data = None\<rparr>],
      g_outputs = [\<lparr>dims = [1, 10], bytes = 40, data = None\<rparr>],
      g_forward = (\<lambda>ins. Some [\<lparr>dims = [1, 10], bytes = 40, data = Some (replicate 10 (1 / 10))\<rparr>])\<rparr>"

definition detector :: graph where
  "detector =
     \<lparr>buildable = True, allocatable = True,
      g_inputs = [\<lparr>dims = [1, 512], bytes = 2048, data = None\<rparr>],
      g_outputs = [\<lparr>dims = [], bytes = 4, data = None\<rparr>],
      g_forward = (\<lambda>ins. Some [\<lparr>dims = [], bytes = 4, data = Some [1]\<rparr>])\<rparr>"

text \<open>
  Two models whose output shapes have a product outside the range of \<^verbatim>\<open>int\<close>:
  \<open>65536 * 65537 = 2^32 + 65536\<close> and \<open>65536 * 65536 = 2^32\<close>.
\<close>

definition wide :: graph where
  "wide =
     \<lparr>buildable = True, allocatable = True,
      g_inputs = [\<lparr>dims = [1, 512], bytes = 2048, data = None\<rparr>],
      g_outputs = [\<lparr>dims = [65536, 65537], bytes = 17180131328, data = None\<rparr>],
      g_forward = (\<lambda>ins. Some [\<lparr>dims = [65536, 65537], bytes = 17180131328,
                                  data = Some (replicate 4295032832 0)\<rparr>])\<rparr>"

definition square :: graph where
  "square =
     \<lparr>buildable = True, allocatable = True,
      g_inputs = [\<lparr>dims = [1, 512], bytes = 2048, data = None\<rparr>],
      g_outputs = [\<lparr>dims = [65536, 65536], bytes = 17179869184, data = None\<rparr>],
      g_forward = (\<lambda>ins. Some [\<lparr>dims = [65536, 65536], bytes = 17179869184,
                                  data = Some (replicate 4294967296 0)\<rparr>])\<rparr>"

definition device :: world where
  "device =
     \<lparr>files = (\<lambda>path. if path = ''/data/model.tflite'' then Some classifier
                      else if path = ''/data/broken.tflite''
                      then Some (classifier\<lparr>allocatable := False\<rparr>)
                      else if path = ''/data/scalar.tflite'' then Some detector
                      else if path = ''/data/wide.tflite'' then Some wide
                      else if path = ''/data/square.tflite'' then Some square
                      else None),
      models = (\<lambda>a. None), opts = (\<lambda>a. None), interps = (\<lambda>a. None), procs = (\<lambda>a. None),
      next_addr = 4096, logs = []\<rparr>"

definition jni :: JNIEnv where
  "jni = \<lparr>GetStringUTFChars_ok = True, GetShortArrayElements_ok = True, NewFloatArray_ok = True\<rparr>"

text \<open>Storage whose bytes are not zero, as the allocator may hand it out.\<close>

definition stale :: MLProcessor where
  "stale = \<lparr>model = 3735928559, interpreter = 3735928559, options = 3735928559\<rparr>"

text \<open>
  Opening a model file on the device through \<^verbatim>\<open>nativeInit\<close>, on storage that is not zero:
  the object behind the returned handle and the state it leaves. \<open>run_core\<close> then calls
  \<^verbatim>\<open>processAudio\<close> on that object, with exact division.
\<close>

definition open_processor :: "string \<Rightarrow> fault + (MLProcessor \<times> world)" where
  "open_processor path =
     (case nativeInit jni stale device path of
        Inl e \<Rightarrow> Inl e
      | Inr (handle, w) \<Rightarrow>
          (case procs w handle of
             None \<Rightarrow> Inl InvalidPointer
           | Some this \<Rightarrow> Inr (this, w)))"

definition run_core :: "string \<Rightarrow> int16 list \<Rightarrow> int \<Rightarrow> fault + (float list \<times> world)" where
  "run_core path audioData len =
     (case open_processor path of
        Inl e \<Rightarrow> Inl e
      | Inr (this, w) \<Rightarrow> processAudio (\<lambda>x. x) this w audioData len)"

definition silence :: "int16 list" where
  "silence = replicate 512 0"

text \<open>
  What a call of \<open>run_core\<close> shows when it returns: the length of the returned vector,
  whether the call printed an error line, and the dimension sizes of the output tensor
  that the interpreter holds afterwards.
\<close>

definition run_report ::
    "string \<Rightarrow> int16 list \<Rightarrow> int \<Rightarrow> fault + (nat \<times> bool \<times> int list option)" where
  "run_report path audioData len =
     (case open_processor path of
        Inl e \<Rightarrow> Inl e
      | Inr (this, w) \<Rightarrow>
          (case processAudio (\<lambda>x. x) this w audioData len of
             Inl e \<Rightarrow> Inl e
           | Inr (result, w') \<Rightarrow>
               Inr (length result, logged_error w w',
                    (case TfLiteInterpreterGetOutputTensor w' (interpreter this) 0 of
                       Inl e \<Rightarrow> None
                     | Inr None \<Rightarrow> None
                     | Inr (Some t) \<Rightarrow> Some (dims t)))))"

text \<open>
  Opening a model file and closing the returned handle: once (the handle and the state
  after the close), and a second time on the same handle.
\<close>

definition close_once :: "string \<Rightarrow> fault + (addr \<times> world)" where
  "close_once path =
     (case nativeInit jni stale device path of
        Inl e \<Rightarrow> Inl e
      | Inr (handle, w) \<Rightarrow>
          (case nativeClose w handle of
             Inl e \<Rightarrow> Inl e
           | Inr w1 \<Rightarrow> Inr (handle, w1)))"

definition close_twice :: "string \<Rightarrow> fault + world" where
  "close_twice path =
     (case close_once path of
        Inl e \<Rightarrow> Inl e
      | Inr (handle, w1) \<Rightarrow> nativeClose w1 handle)"

section \<open>The two loops of the preprocessing\<close>

text \<open>
  Both loops run over the indices below \<open>min length MODEL_INPUT_LEN\<close>. When the sample array
  and the buffer reach that far, the first loop returns the buffer with those slots
  replaced by the cast samples, and a peak that bounds every magnitude and is attained (or
  is the initial value); the second returns the buffer with those slots divided.
\<close>

lemma loop_guard: "(i < MODEL_INPUT_LEN \<and> int i < len) = (i < min (nat len) MODEL_INPUT_LEN)"
  by auto

lemma convert_loop_result:
  assumes "min (nat len) MODEL_INPUT_LEN \<le> length a"
      and "min (nat len) MODEL_INPUT_LEN \<le> length f"
  shows "\<exists>r peak. convert_loop a len i f m = Inr (r, peak) \<and> length r = length f \<and>
           (\<forall>j<length f. r ! j = (if i \<le> j \<and> j < min (nat len) MODEL_INPUT_LEN
                                    then static_cast_float (a ! j) else f ! j)) \<and>
           m \<le> peak \<and>
           (\<forall>j. i \<le> j \<and> j < min (nat len) MODEL_INPUT_LEN \<longrightarrow> \<bar>static_cast_float (a ! j)\<bar> \<le> peak) \<and>
           (peak = m \<or> (\<exists>j. i \<le> j \<and> j < min (nat len) MODEL_INPUT_LEN \<and> peak = \<bar>static_cast_float (a ! j)\<bar>))"
  using assms
proof (induction a len i f m rule: convert_loop.induct)
  case (1 a len i f m)
  let ?n = "min (nat len) MODEL_INPUT_LEN"
  show ?case
  proof (cases "i < ?n")
    case False
    then have g: "\<not> (i < MODEL_INPUT_LEN \<and> int i < len)"
      by (simp add: loop_guard)
    have "convert_loop a len i f m = Inr (f, m)"
      by (subst convert_loop.simps) (simp only: g if_False)
    with False show ?thesis by auto
  next
    case True
    let ?x = "static_cast_float (a ! i)"
    let ?f = "f[i := ?x]"
    let ?m = "if \<bar>?x\<bar> > m then \<bar>?x\<bar> else m"
    from True "1.prems" have ia: "i < length a" and "i < length f" by auto
    from True have g: "i < MODEL_INPUT_LEN \<and> int i < len"
      by auto
    have step: "convert_loop a len i f m = convert_loop a len (Suc i) ?f ?m"
      using ia \<open>i < length f\<close> by (subst convert_loop.simps) (simp add: g)
    have "\<exists>r peak. convert_loop a len (Suc i) ?f ?m = Inr (r, peak) \<and> length r = length ?f \<and>
           (\<forall>j<length ?f. r ! j = (if Suc i \<le> j \<and> j < ?n
                                    then static_cast_float (a ! j) else ?f ! j)) \<and>
           ?m \<le> peak \<and>
           (\<forall>j. Suc i \<le> j \<and> j < ?n \<longrightarrow> \<bar>static_cast_float (a ! j)\<bar> \<le> peak) \<and>
           (peak = ?m \<or> (\<exists>j. Suc i \<le> j \<and> j < ?n \<and> peak = \<bar>static_cast_float (a ! j)\<bar>))"
      using True ia \<open>i < length f\<close> "1.prems"
      by (intro "1.IH") (auto simp: loop_guard)
    then obtain r peak where
      r: "convert_loop a len (Suc i) ?f ?m = Inr (r, peak)" "length r = length f"
      and nth: "\<forall>j<length f. r ! j = (if Suc i \<le> j \<and> j < ?n then static_cast_float (a ! j) else ?f ! j)"
      and lo: "?m \<le> peak"
      and ub: "\<forall>j. Suc i \<le> j \<and> j < ?n \<longrightarrow> \<bar>static_cast_float (a ! j)\<bar> \<le> peak"
      and att: "peak = ?m \<or> (\<exists>j. Suc i \<le> j \<and> j < ?n \<and> peak = \<bar>static_cast_float (a ! j)\<bar>)"
      by auto
    have n1: "\<forall>j<length f. r ! j = (if i \<le> j \<and> j < ?n then static_cast_float (a ! j) else f ! j)"
    proof (intro allI impI)
      fix j assume j: "j < length f"
      show "r ! j = (if i \<le> j \<and> j < ?n then static_cast_float (a ! j) else f ! j)"
        using nth j True \<open>i < length f\<close> by (cases "j = i") (auto simp: not_less_eq_eq)
    qed
    have n2: "m \<le> peak" using lo by (auto split: if_splits)
    have n3: "\<forall>j. i \<le> j \<and> j < ?n \<longrightarrow> \<bar>static_cast_float (a ! j)\<bar> \<le> peak"
    proof (intro allI impI)
      fix j assume j: "i \<le> j \<and> j < ?n"
      show "\<bar>static_cast_float (a ! j)\<bar> \<le> peak"
      proof (cases "j = i")
        case True then show ?thesis using lo by (auto split: if_splits)
      next
        case False then show ?thesis using ub j by auto
      qed
    qed
    have n4: "peak = m \<or> (\<exists>j. i \<le> j \<and> j < ?n \<and> peak = \<bar>static_cast_float (a ! j)\<bar>)"
      using att
    proof
      assume "peak = ?m"
      then show ?thesis using True by (auto split: if_splits)
    next
      assume "\<exists>j. Suc i \<le> j \<and> j < ?n \<and> peak = \<bar>static_cast_float (a ! j)\<bar>"
      then show ?thesis by (metis Suc_leD)
    qed
    show ?thesis using step r n1 n2 n3 n4 by auto
  qed
qed

lemma normalize_loop_result:
  assumes "min (nat len) MODEL_INPUT_LEN \<le> length f"
  shows "\<exists>r. normalize_loop rnd len i f p = Inr r \<and> length r = length f \<and>
           (\<forall>j<length f. r ! j = (if i \<le> j \<and> j < min (nat len) MODEL_INPUT_LEN
                                    then fdiv rnd (f ! j) p else f ! j))"
  using assms
proof (induction rnd len i f p rule: normalize_loop.induct)
  case (1 rnd len i f p)
  let ?n = "min (nat len) MODEL_INPUT_LEN"
  show ?case
  proof (cases "i < ?n")
    case False
    then have g: "\<not> (i < MODEL_INPUT_LEN \<and> int i < len)"
      by (simp add: loop_guard)
    have "normalize_loop rnd len i f p = Inr f"
      by (subst normalize_loop.simps) (simp only: g if_False)
    with False show ?thesis by auto
  next
    case True
    let ?f = "f[i := fdiv rnd (f ! i) p]"
    from True "1.prems" have il: "i < length f" by auto
    from True have g: "i < MODEL_INPUT_LEN \<and> int i < len"
      by auto
    have step: "normalize_loop rnd len i f p = normalize_loop rnd len (Suc i) ?f p"
      using il by (subst normalize_loop.simps) (simp add: g)
    have "\<exists>r. normalize_loop rnd len (Suc i) ?f p = Inr r \<and> length r = length ?f \<and>
           (\<forall>j<length ?f. r ! j = (if Suc i \<le> j \<and> j < ?n then fdiv rnd (?f ! j) p else ?f ! j))"
      using True il "1.prems" by (intro "1.IH") (auto simp: loop_guard)
    then obtain r where
      r: "normalize_loop rnd len (Suc i) ?f p = Inr r" "length r = length f"
      and nth: "\<forall>j<length f. r ! j = (if Suc i \<le> j \<and> j < ?n then fdiv rnd (?f ! j) p else ?f ! j)"
      by auto
    have "\<forall>j<length f. r ! j = (if i \<le> j \<and> j < ?n then fdiv rnd (f ! j) p else f ! j)"
    proof (intro allI impI)
      fix j assume j: "j < length f"
      show "r ! j = (if i \<le> j \<and> j < ?n then fdiv rnd (f ! j) p else f ! j)"
        using nth j True il by (cases "j = i") (auto simp: not_less_eq_eq)
    qed
    then show ?thesis using step r by auto
  qed
qed

text \<open>The preprocessing as a whole, for a window that holds the samples it announces.\<close>

lemma normalize_result:
  assumes len: "0 \<le> len" and a: "min (nat len) MODEL_INPUT_LEN \<le> length audioData"
  shows "\<exists>buf peak. normalize rnd audioData len = Inr (buf, peak) \<and> length buf = nat len \<and>
           0 \<le> peak \<and>
           (\<forall>j. j < min (nat len) MODEL_INPUT_LEN \<longrightarrow> \<bar>static_cast_float (audioData ! j)\<bar> \<le> peak) \<and>
           (peak = 0 \<or> (\<exists>j. j < min (nat len) MODEL_INPUT_LEN \<and> peak = \<bar>static_cast_float (audioData ! j)\<bar>)) \<and>
           (\<forall>j<nat len. buf ! j =
               (if j < min (nat len) MODEL_INPUT_LEN
                then (if 0 < peak then fdiv rnd (static_cast_float (audioData ! j)) peak
                      else static_cast_float (audioData ! j))
                else 0))"
proof -
  let ?n = "min (nat len) MODEL_INPUT_LEN"
  let ?f0 = "replicate (nat len) (0::real)"
  have v: "vector_float len = Inr ?f0" using len by (simp add: vector_float_def)
  have f0: "?n \<le> length ?f0" by simp
  from convert_loop_result[OF a f0, of 0 0] obtain r peak where
    c: "convert_loop audioData len 0 ?f0 0 = Inr (r, peak)" and lr: "length r = nat len"
    and nth: "\<forall>j<nat len. r ! j = (if j < ?n then static_cast_float (audioData ! j) else ?f0 ! j)"
    and lo: "0 \<le> peak"
    and ub: "\<forall>j. j < ?n \<longrightarrow> \<bar>static_cast_float (audioData ! j)\<bar> \<le> peak"
    and att: "peak = 0 \<or> (\<exists>j. j < ?n \<and> peak = \<bar>static_cast_float (audioData ! j)\<bar>)"
    by auto
  have nth': "\<forall>j<nat len. r ! j = (if j < ?n then static_cast_float (audioData ! j) else 0)"
    using nth by auto
  show ?thesis
  proof (cases "0 < peak")
    case False
    then have "normalize rnd audioData len = Inr (r, peak)"
      by (simp add: normalize_def v c)
    then show ?thesis using lr lo ub att nth' False by auto
  next
    case True
    have "?n \<le> length r" using lr by simp
    from normalize_loop_result[OF this, of rnd 0 peak] obtain r2 where
      n: "normalize_loop rnd len 0 r peak = Inr r2" and lr2: "length r2 = nat len"
      and nth2: "\<forall>j<nat len. r2 ! j = (if j < ?n then fdiv rnd (r ! j) peak else r ! j)"
      using lr by auto
    have "normalize rnd audioData len = Inr (r2, peak)"
      using True by (simp add: normalize_def v c n)
    moreover have "\<forall>j<nat len. r2 ! j =
               (if j < ?n then (if 0 < peak then fdiv rnd (static_cast_float (audioData ! j)) peak
                      else static_cast_float (audioData ! j)) else 0)"
      using nth2 nth' True by auto
    ultimately show ?thesis using lr2 lo ub att by auto
  qed
qed

lemma peak_is_Max:
  assumes n: "n \<le> length a"
      and lo: "(0::real) \<le> peak"
      and ub: "\<forall>j. j < n \<longrightarrow> \<bar>g (a ! j)\<bar> \<le> peak"
      and att: "peak = 0 \<or> (\<exists>j. j < n \<and> peak = \<bar>g (a ! j)\<bar>)"
  shows "peak = Max (insert 0 ((\<lambda>s. \<bar>g s\<bar>) ` set (take n a)))"
proof -
  have mem: "\<And>s. s \<in> set (take n a) \<Longrightarrow> \<exists>j<n. s = a ! j"
    using n by (auto simp: in_set_conv_nth)
  have "Max (insert 0 ((\<lambda>s. \<bar>g s\<bar>) ` set (take n a))) = peak"
  proof (rule Max_eqI)
    show "finite (insert 0 ((\<lambda>s. \<bar>g s\<bar>) ` set (take n a)))" by simp
  next
    fix y assume "y \<in> insert 0 ((\<lambda>s. \<bar>g s\<bar>) ` set (take n a))"
    then show "y \<le> peak" using lo ub mem by auto
  next
    show "peak \<in> insert 0 ((\<lambda>s. \<bar>g s\<bar>) ` set (take n a))"
      using att
    proof
      assume "peak = 0" then show ?thesis by simp
    next
      assume "\<exists>j. j < n \<and> peak = \<bar>g (a ! j)\<bar>"
      then obtain j where j: "j < n" "peak = \<bar>g (a ! j)\<bar>" by auto
      then have "a ! j \<in> set (take n a)"
        using n by (auto simp: in_set_conv_nth intro!: exI[of _ j])
      then show ?thesis using j by auto
    qed
  qed
  then show ?thesis by simp
qed

section \<open>The output size and the result vector\<close>

text \<open>
  The loop of lines 209--212 returns the product of the dimension sizes wrapped to 32
  bits, which is the product itself when that is in the range of \<^verbatim>\<open>int\<close>; the resized
  vector has that many slots, and the copy out of the tensor keeps the vector's length.
\<close>

lemma wrap_int_in_range: "INT_MIN \<le> x \<Longrightarrow> x \<le> INT_MAX \<Longrightarrow> wrap_int x = x"
  by (simp add: wrap_int_def INT_MIN_def INT_MAX_def)

lemma wrap_int_mod: "wrap_int x mod 2 ^ 32 = x mod 2 ^ 32"
  by (simp add: wrap_int_def mod_diff_left_eq)

lemma wrap_int_cong: "x mod 2 ^ 32 = y mod 2 ^ 32 \<Longrightarrow> wrap_int x = wrap_int y"
  unfolding wrap_int_def by (metis mod_add_cong)

lemma wrap_int_mult: "wrap_int (wrap_int x * y) = wrap_int (x * y)"
  by (rule wrap_int_cong) (metis mod_mult_cong wrap_int_mod)

lemma wrap_int_one: "wrap_int 1 = 1"
  by (simp add: wrap_int_def)

lemma outputSize_loop_from:
  "outputSize_loop t i acc =
     (if i < length (dims t) then wrap_int (acc * prod_list (drop i (dims t))) else acc)"
proof (induction t i acc rule: outputSize_loop.induct)
  case (1 t i acc)
  show ?case
  proof (cases "i < length (dims t)")
    case False
    then have "outputSize_loop t i acc = acc"
      by (subst outputSize_loop.simps) (simp add: TfLiteTensorNumDims_def)
    with False show ?thesis by simp
  next
    case True
    then have g: "int i < TfLiteTensorNumDims t" by (simp add: TfLiteTensorNumDims_def)
    let ?q = "wrap_int (acc * (dims t ! i))"
    have step: "outputSize_loop t i acc = outputSize_loop t (Suc i) ?q"
      by (subst outputSize_loop.simps) (simp add: g mul_int_def TfLiteTensorDim_def)
    have ih: "outputSize_loop t (Suc i) ?q =
                (if Suc i < length (dims t)
                 then wrap_int (?q * prod_list (drop (Suc i) (dims t))) else ?q)"
      using "1.IH"[OF g] by (simp add: mul_int_def TfLiteTensorDim_def)
    have d: "drop i (dims t) = dims t ! i # drop (Suc i) (dims t)"
      using True by (simp add: Cons_nth_drop_Suc)
    show ?thesis
    proof (cases "Suc i < length (dims t)")
      case inner: True
      have "wrap_int (?q * prod_list (drop (Suc i) (dims t))) =
            wrap_int (acc * (dims t ! i) * prod_list (drop (Suc i) (dims t)))"
        by (rule wrap_int_mult)
      then show ?thesis using step ih inner True d by (simp add: mult.assoc)
    next
      case last: False
      then have "drop (Suc i) (dims t) = []" by simp
      then show ?thesis using step ih last True d by simp
    qed
  qed
qed

lemma outputSize_loop_prod: "outputSize_loop t 0 1 = wrap_int (prod_list (dims t))"
  by (simp add: outputSize_loop_from wrap_int_one)

lemma vector_resize_empty:
  "vector_resize [] n = Inr r \<Longrightarrow> 0 \<le> n \<and> r = replicate (nat n) 0"
  by (auto simp: vector_resize_def split: if_splits)

lemma CopyToBuffer_length:
  "TfLiteTensorCopyToBuffer t r k = Inr (st, r') \<Longrightarrow> length r' = length r"
  by (auto simp: TfLiteTensorCopyToBuffer_def sizeof_float_def split: if_splits option.splits)

lemma logs_store_input [simp]: "logs (store_input w i k t) = logs w"
  by (simp add: store_input_def split: option.splits)

lemma Invoke_logs: "TfLiteInterpreterInvoke w i = Inr (st, w') \<Longrightarrow> logs w' = logs w"
  by (auto simp: TfLiteInterpreterInvoke_def split: option.splits if_splits)

lemma logged_error_LOG_ERROR:
  "logs w1 = logs w @ xs \<Longrightarrow> logged_error w (LOG_ERROR w1 fmt)"
  by (auto simp: logged_error_def LOG_ERROR_def)

text \<open>
  Every return of \<^verbatim>\<open>processAudio\<close>: either one of the four failure branches, which
  return the empty vector and print an error line, or the success path, which prints none
  and returns a vector with as many slots as the output size computed from the output
  tensor that the interpreter holds after the invoke.
\<close>

lemma processAudio_cases:
  assumes "processAudio rnd this w audioData len = Inr (result, w')"
  shows "(result = [] \<and> logged_error w w') \<or>
         (\<not> logged_error w w' \<and>
          (\<exists>t. TfLiteInterpreterGetOutputTensor w' (interpreter this) 0 = Inr (Some t) \<and>
               0 \<le> outputSize_loop t 0 1 \<and> length result = nat (outputSize_loop t 0 1)))"
proof (cases "interpreter this = nullptr")
  case True
  with assms have "result = []" "w' = LOG_ERROR w ''Interpreter not initialized''"
    by (simp_all add: processAudio_def)
  then show ?thesis using logged_error_LOG_ERROR[of w w "[]"] by simp
next
  case nn: False
  show ?thesis
  proof (cases "TfLiteInterpreterGetInputTensor w (interpreter this) 0")
    case (Inl e)
    with assms nn show ?thesis by (simp add: processAudio_def)
  next
    case (Inr tin)
    show ?thesis
    proof (cases tin)
      case None
      with assms nn Inr have "result = []" "w' = LOG_ERROR w ''Failed to get input tensor''"
        by (simp_all add: processAudio_def)
      then show ?thesis using logged_error_LOG_ERROR[of w w "[]"] by simp
    next
      case (Some inputTensor)
      let ?w2 = "\<lambda>t. store_input (LOG_INFO w ''Audio normalization - Max amplitude: %f'') (interpreter this) 0 t"
      from assms nn Inr Some obtain floatData maxAmplitude copied inputTensor' st w3 where
        inv: "TfLiteInterpreterInvoke (?w2 inputTensor') (interpreter this) = Inr (st, w3)"
        and rest: "(if st \<noteq> kTfLiteOk then Inr ([], LOG_ERROR w3 ''Failed to invoke interpreter'')
                    else (case TfLiteInterpreterGetOutputTensor w3 (interpreter this) 0 of
                            Inl e \<Rightarrow> Inl e
                          | Inr None \<Rightarrow> Inr ([], LOG_ERROR w3 ''Failed to get output tensor'')
                          | Inr (Some outputTensor) \<Rightarrow>
                              (case vector_resize [] (outputSize_loop outputTensor 0 1) of
                                 Inl e \<Rightarrow> Inl e
                               | Inr result \<Rightarrow>
                                   (case TfLiteTensorCopyToBuffer outputTensor result
                                           (nat (outputSize_loop outputTensor 0 1)
                                            * sizeof_float) of
                                      Inl e \<Rightarrow> Inl e
                                    | Inr (copied_out, result') \<Rightarrow> Inr (result', w3)))))
                   = Inr (result, w')"
        by (auto simp: processAudio_def split: sum.splits prod.splits)
      have l3: "logs w3 = logs w @ [PrintfInfo ''Audio normalization - Max amplitude: %f'']"
        using Invoke_logs[OF inv] by (simp add: LOG_INFO_def)
      show ?thesis
      proof (cases "st = kTfLiteOk")
        case False
        with rest have "result = []" "w' = LOG_ERROR w3 ''Failed to invoke interpreter''" by simp_all
        then show ?thesis using logged_error_LOG_ERROR[OF l3] by simp
      next
        case ok: True
        show ?thesis
        proof (cases "TfLiteInterpreterGetOutputTensor w3 (interpreter this) 0")
          case (Inl e)
          with rest ok show ?thesis by simp
        next
          case out: (Inr tout)
          show ?thesis
          proof (cases tout)
            case None
            with rest ok out have "result = []" "w' = LOG_ERROR w3 ''Failed to get output tensor''"
              by simp_all
            then show ?thesis using logged_error_LOG_ERROR[OF l3] by simp
          next
            case (Some outputTensor)
            let ?n = "outputSize_loop outputTensor 0 1"
            from rest ok out Some obtain r0 cst where
              r0: "vector_resize [] ?n = Inr r0"
              and c: "TfLiteTensorCopyToBuffer outputTensor r0 (nat ?n * sizeof_float) = Inr (cst, result)"
              and w': "w' = w3"
              by (auto split: sum.splits prod.splits)
            from vector_resize_empty[OF r0] CopyToBuffer_length[OF c]
            have "0 \<le> ?n" "length result = nat ?n" by simp_all
            moreover have "\<not> logged_error w w'"
              unfolding w' by (simp add: logged_error_def l3)
            ultimately show ?thesis using out Some w' by auto
          qed
        qed
      qed
    qed
  qed
qed


section \<open>Inputs longer than the model input\<close>

text \<open>
  An array shorter than the indices the first loop visits is read out of bounds. For two
  lengths above \<open>MODEL_INPUT_LEN\<close> and arrays that agree on their first
  \<open>MODEL_INPUT_LEN\<close> samples, the preprocessing either faults on both or leaves the same
  peak and buffers that agree on their first \<open>MODEL_INPUT_LEN\<close> slots, which is all the copy
  into the input tensor reads.
\<close>

lemma convert_loop_short:
  assumes "length a < min (nat len) MODEL_INPUT_LEN"
      and "min (nat len) MODEL_INPUT_LEN \<le> length f"
      and "i \<le> length a"
  shows "convert_loop a len i f m = Inl OutOfBoundsRead"
  using assms
proof (induction a len i f m rule: convert_loop.induct)
  case (1 a len i f m)
  from "1.prems" have g: "i < MODEL_INPUT_LEN \<and> int i < len" by auto
  show ?case
  proof (cases "length a \<le> i")
    case True
    then show ?thesis by (subst convert_loop.simps) (simp add: g)
  next
    case False
    with "1.prems" have il: "\<not> length f \<le> i" by auto
    let ?f = "f[i := static_cast_float (a ! i)]"
    let ?m = "if \<bar>static_cast_float (a ! i)\<bar> > m then \<bar>static_cast_float (a ! i)\<bar> else m"
    have step: "convert_loop a len i f m = convert_loop a len (Suc i) ?f ?m"
      using False il by (subst convert_loop.simps) (simp add: g)
    have "convert_loop a len (Suc i) ?f ?m = Inl OutOfBoundsRead"
      using "1.prems" False by (intro "1.IH"[OF g False il]) auto
    then show ?thesis using step by simp
  qed
qed

lemma normalize_short:
  assumes "length a < min (nat len) MODEL_INPUT_LEN"
  shows "normalize rnd a len = Inl OutOfBoundsRead"
proof -
  from assms have "0 \<le> len" by auto
  then have v: "vector_float len = Inr (replicate (nat len) 0)" by (simp add: vector_float_def)
  have "convert_loop a len 0 (replicate (nat len) 0) 0 = Inl OutOfBoundsRead"
    using assms by (intro convert_loop_short) auto
  then show ?thesis by (simp add: normalize_def v)
qed

lemma normalize_prefix:
  assumes l1: "int MODEL_INPUT_LEN < len1" and l2: "int MODEL_INPUT_LEN < len2"
      and tk: "take MODEL_INPUT_LEN a1 = take MODEL_INPUT_LEN a2"
  shows "(normalize rnd a1 len1 = Inl OutOfBoundsRead \<and> normalize rnd a2 len2 = Inl OutOfBoundsRead) \<or>
         (\<exists>b1 b2 p. normalize rnd a1 len1 = Inr (b1, p) \<and> normalize rnd a2 len2 = Inr (b2, p) \<and>
              MODEL_INPUT_LEN \<le> length b1 \<and> MODEL_INPUT_LEN \<le> length b2 \<and>
              take MODEL_INPUT_LEN b1 = take MODEL_INPUT_LEN b2)"
proof -
  let ?N = MODEL_INPUT_LEN
  have n1: "min (nat len1) ?N = ?N" and n2: "min (nat len2) ?N = ?N"
    using l1 l2 by auto
  have len_eq: "min (length a1) ?N = min (length a2) ?N"
    using arg_cong[OF tk, of length] by simp
  show ?thesis
  proof (cases "length a1 < ?N")
    case True
    with len_eq have "length a2 < ?N" by auto
    with True show ?thesis
      using normalize_short[of a1 len1 rnd] normalize_short[of a2 len2 rnd] n1 n2 by simp
  next
    case False
    with len_eq have g1: "?N \<le> length a1" and g2: "?N \<le> length a2" by auto
    have same: "\<And>j. j < ?N \<Longrightarrow> a1 ! j = a2 ! j"
    proof -
      fix j assume j: "j < ?N"
      have "take ?N a1 ! j = take ?N a2 ! j" using tk by simp
      then show "a1 ! j = a2 ! j" using j by simp
    qed
    have p1: "0 \<le> len1" and p2: "0 \<le> len2" using l1 l2 by auto
    from normalize_result[OF p1, of a1 rnd] g1 n1 obtain b1 k1 where
      r1: "normalize rnd a1 len1 = Inr (b1, k1)" and lb1: "length b1 = nat len1"
      and lo1: "0 \<le> k1"
      and ub1: "\<forall>j. j < ?N \<longrightarrow> \<bar>static_cast_float (a1 ! j)\<bar> \<le> k1"
      and at1: "k1 = 0 \<or> (\<exists>j. j < ?N \<and> k1 = \<bar>static_cast_float (a1 ! j)\<bar>)"
      and nth1: "\<forall>j<nat len1. b1 ! j =
               (if j < ?N then (if 0 < k1 then fdiv rnd (static_cast_float (a1 ! j)) k1
                      else static_cast_float (a1 ! j)) else 0)"
      by auto
    from normalize_result[OF p2, of a2 rnd] g2 n2 obtain b2 k2 where
      r2: "normalize rnd a2 len2 = Inr (b2, k2)" and lb2: "length b2 = nat len2"
      and lo2: "0 \<le> k2"
      and ub2: "\<forall>j. j < ?N \<longrightarrow> \<bar>static_cast_float (a2 ! j)\<bar> \<le> k2"
      and at2: "k2 = 0 \<or> (\<exists>j. j < ?N \<and> k2 = \<bar>static_cast_float (a2 ! j)\<bar>)"
      and nth2: "\<forall>j<nat len2. b2 ! j =
               (if j < ?N then (if 0 < k2 then fdiv rnd (static_cast_float (a2 ! j)) k2
                      else static_cast_float (a2 ! j)) else 0)"
      by auto
    have "k1 = Max (insert 0 ((\<lambda>s. \<bar>static_cast_float s\<bar>) ` set (take ?N a1)))"
      by (rule peak_is_Max[OF g1 lo1 ub1 at1])
    moreover have "k2 = Max (insert 0 ((\<lambda>s. \<bar>static_cast_float s\<bar>) ` set (take ?N a2)))"
      by (rule peak_is_Max[OF g2 lo2 ub2 at2])
    ultimately have k: "k1 = k2" using tk by simp
    have L1: "?N \<le> length b1" and L2: "?N \<le> length b2" using lb1 lb2 l1 l2 by auto
    have "\<And>j. j < ?N \<Longrightarrow> b1 ! j = b2 ! j"
    proof -
      fix j assume j: "j < ?N"
      then have "j < nat len1" "j < nat len2" using l1 l2 by auto
      then show "b1 ! j = b2 ! j" using nth1 nth2 j same[OF j] k by simp
    qed
    then have "take ?N b1 = take ?N b2"
      using L1 L2 by (simp add: list_eq_iff_nth_eq)
    then show ?thesis using r1 r2 k L1 L2 by auto
  qed
qed

lemma CopyFromBuffer_prefix:
  assumes "MODEL_INPUT_LEN \<le> length b1" "MODEL_INPUT_LEN \<le> length b2"
      and "take MODEL_INPUT_LEN b1 = take MODEL_INPUT_LEN b2"
  shows "TfLiteTensorCopyFromBuffer t b1 (MODEL_INPUT_LEN * sizeof_float) =
         TfLiteTensorCopyFromBuffer t b2 (MODEL_INPUT_LEN * sizeof_float)"
  using assms by (simp add: TfLiteTensorCopyFromBuffer_def sizeof_float_def split: option.splits)

section \<open>Construction failures and short windows\<close>

text \<open>
  A failed load assigns only the \<open>model\<close> member: the other two keep what the storage
  held. A non-null \<open>interpreter\<close> member that is not the address of a live interpreter
  makes the first library call of \<^verbatim>\<open>processAudio\<close> undefined. On a live interpreter
  whose input tensor has \<open>MODEL_INPUT_LEN\<close> floats and a buffer, a window of fewer than
  \<open>MODEL_INPUT_LEN\<close> samples leaves a buffer of that many slots, and the copy of
  \<open>MODEL_INPUT_LEN\<close> floats reads past its end.
\<close>

lemma ctor_load_failure:
  "files w modelPath = None \<Longrightarrow>
   MLProcessor_ctor storage w modelPath =
     Inr (storage\<lparr>model := nullptr\<rparr>, LOG_ERROR w ''Failed to load model from %s'')"
  by (simp add: MLProcessor_ctor_def TfLiteModelCreateFromFile_def)

lemma processAudio_dangling:
  "interpreter this \<noteq> nullptr \<Longrightarrow> interps w (interpreter this) = None \<Longrightarrow>
   processAudio rnd this w audioData len = Inl InvalidPointer"
  by (simp add: processAudio_def TfLiteInterpreterGetInputTensor_def)

lemma processAudio_short_window:
  assumes "0 \<le> len" and "len < int MODEL_INPUT_LEN" and "nat len \<le> length audioData"
      and "interpreter this \<noteq> nullptr" and "interps w (interpreter this) = Some it"
      and "inputs it = t # ts" and "bytes t = MODEL_INPUT_LEN * sizeof_float"
      and "data t = Some cells"
  shows "processAudio rnd this w audioData len = Inl OutOfBoundsRead"
proof -
  have "min (nat len) MODEL_INPUT_LEN \<le> length audioData" using assms(3) by simp
  from normalize_result[OF assms(1) this, of rnd] obtain buf peak where
    r: "normalize rnd audioData len = Inr (buf, peak)" and l: "length buf = nat len"
    by blast
  have "length buf < MODEL_INPUT_LEN" using l assms(1,2) by simp
  then show ?thesis
    using assms(4-8) r
    by (simp add: processAudio_def TfLiteInterpreterGetInputTensor_def
          TfLiteTensorCopyFromBuffer_def sizeof_float_def)
qed

section \<open>Runs on the device\<close>

text \<open>
  The state that \<^verbatim>\<open>nativeInit\<close> leaves for each file of the device, and the calls
  made on it, evaluated.
\<close>

lemmas api_defs =
  nativeInit_def new_MLProcessor_def MLProcessor_ctor_def
  TfLiteModelCreateFromFile_def TfLiteInterpreterOptionsCreate_def
  TfLiteInterpreterOptionsSetNumThreads_def TfLiteInterpreterCreate_def
  TfLiteInterpreterAllocateTensors_def allocate_buffer_def
  LOG_INFO_def LOG_ERROR_def LOGI_def LOGE_def nullptr_def sizeof_float_def

lemmas run_defs =
  processAudio_def TfLiteInterpreterGetInputTensor_def TfLiteInterpreterGetOutputTensor_def
  TfLiteTensorCopyFromBuffer_def TfLiteTensorCopyToBuffer_def TfLiteInterpreterInvoke_def
  store_input_def vector_resize_def MODEL_INPUT_LEN_def mul_int_def wrap_int_def
  TfLiteTensorNumDims_def TfLiteTensorDim_def

lemmas close_defs =
  nativeClose_def delete_MLProcessor_def MLProcessor_dtor_def TfLiteInterpreterDelete_def
  TfLiteInterpreterOptionsDelete_def TfLiteModelDelete_def

lemma init_model:
  "nativeInit jni stale device ''/data/model.tflite'' =
     Inr (4096,
          \<lparr>files = files device,
           models = [4097 \<mapsto> classifier],
           opts = [4098 \<mapsto> 2],
           interps = [4099 \<mapsto>
              \<lparr>ready = True, can_allocate = True,
               inputs = [\<lparr>dims = [1, 512], bytes = 2048, data = Some (replicate 512 0)\<rparr>],
               outputs = [\<lparr>dims = [1, 10], bytes = 40, data = Some (replicate 10 0)\<rparr>],
               forward = g_forward classifier\<rparr>],
           procs = [4096 \<mapsto> \<lparr>model = 4097, interpreter = 4099, options = 4098\<rparr>],
           next_addr = 4100,
           logs = [AndroidInfo ''Initializing MLProcessor with model: %s'',
                   PrintfInfo ''Model loaded successfully from %s'']\<rparr>)"
  by (simp add: api_defs device_def jni_def stale_def classifier_def)

lemma init_scalar:
  "nativeInit jni stale device ''/data/scalar.tflite'' =
     Inr (4096,
          \<lparr>files = files device,
           models = [4097 \<mapsto> detector],
           opts = [4098 \<mapsto> 2],
           interps = [4099 \<mapsto>
              \<lparr>ready = True, can_allocate = True,
               inputs = [\<lparr>dims = [1, 512], bytes = 2048, data = Some (replicate 512 0)\<rparr>],
               outputs = [\<lparr>dims = [], bytes = 4, data = Some [0]\<rparr>],
               forward = g_forward detector\<rparr>],
           procs = [4096 \<mapsto> \<lparr>model = 4097, interpreter = 4099, options = 4098\<rparr>],
           next_addr = 4100,
           logs = [AndroidInfo ''Initializing MLProcessor with model: %s'',
                   PrintfInfo ''Model loaded successfully from %s'']\<rparr>)"
  by (simp add: api_defs device_def jni_def stale_def detector_def)

lemma init_broken:
  "nativeInit jni stale device ''/data/broken.tflite'' =
     Inr (4096,
          \<lparr>files = files device,
           models = [4097 \<mapsto> classifier\<lparr>allocatable := False\<rparr>],
           opts = [4098 \<mapsto> 2],
           interps = [4099 \<mapsto>
              \<lparr>ready = False, can_allocate = False,
               inputs = [\<lparr>dims = [1, 512], bytes = 2048, data = None\<rparr>],
               outputs = [\<lparr>dims = [1, 10], bytes = 40, data = None\<rparr>],
               forward = g_forward classifier\<rparr>],
           procs = [4096 \<mapsto> \<lparr>model = 4097, interpreter = 4099, options = 4098\<rparr>],
           next_addr = 4100,
           logs = [AndroidInfo ''Initializing MLProcessor with model: %s'',
                   PrintfError ''Failed to allocate tensors'',
                   PrintfInfo ''Model loaded successfully from %s'']\<rparr>)"
  by (simp add: api_defs device_def jni_def stale_def classifier_def)

lemma init_missing:
  "nativeInit jni stale device ''/nonexistent'' =
     Inr (4096,
          \<lparr>files = files device,
           models = (\<lambda>a. None), opts = (\<lambda>a. None), interps = (\<lambda>a. None),
           procs = [4096 \<mapsto> \<lparr>model = 0, interpreter = 3735928559, options = 3735928559\<rparr>],
           next_addr = 4097,
           logs = [AndroidInfo ''Initializing MLProcessor with model: %s'',
                   PrintfError ''Failed to load model from %s'']\<rparr>)"
  by (simp add: api_defs device_def jni_def stale_def)


lemma init_square:
  "nativeInit jni stale device ''/data/square.tflite'' =
     Inr (4096,
          \<lparr>files = files device,
           models = [4097 \<mapsto> square],
           opts = [4098 \<mapsto> 2],
           interps = [4099 \<mapsto>
              \<lparr>ready = True, can_allocate = True,
               inputs = [\<lparr>dims = [1, 512], bytes = 2048, data = Some (replicate 512 0)\<rparr>],
               outputs = [\<lparr>dims = [65536, 65536], bytes = 17179869184,
                          data = Some (replicate 4294967296 0)\<rparr>],
               forward = g_forward square\<rparr>],
           procs = [4096 \<mapsto> \<lparr>model = 4097, interpreter = 4099, options = 4098\<rparr>],
           next_addr = 4100,
           logs = [AndroidInfo ''Initializing MLProcessor with model: %s'',
                   PrintfInfo ''Model loaded successfully from %s'']\<rparr>)"
  by (simp add: api_defs device_def jni_def stale_def square_def)


lemma normalize_empty: "normalize rnd [] 0 = Inr ([], 0)"
  by (simp add: normalize_def vector_float_def convert_loop.simps)

lemma normalize_negative: "len < 0 \<Longrightarrow> normalize rnd audioData len = Inl LengthError"
  by (simp add: normalize_def vector_float_def)

lemma normalize_one: "normalize (\<lambda>x. x) [100] 1 = Inr ([1], 100)"
  by (simp add: normalize_def vector_float_def convert_loop.simps normalize_loop.simps
        MODEL_INPUT_LEN_def static_cast_float_def fdiv_def)

lemma normalize_silence: "normalize rnd silence 512 = Inr (replicate 512 0, 0)"
proof -
  have a: "min (nat 512) MODEL_INPUT_LEN \<le> length silence"
    by (simp add: silence_def MODEL_INPUT_LEN_def)
  have z: "\<And>j. j < 512 \<Longrightarrow> static_cast_float (silence ! j) = 0"
    by (simp add: silence_def static_cast_float_def)
  from normalize_result[OF _ a, of rnd] obtain buf peak where
    r: "normalize rnd silence 512 = Inr (buf, peak)" and l: "length buf = 512"
    and att: "peak = 0 \<or> (\<exists>j. j < min (nat 512) MODEL_INPUT_LEN \<and> peak = \<bar>static_cast_float (silence ! j)\<bar>)"
    and nth: "\<forall>j<nat 512. buf ! j =
               (if j < min (nat 512) MODEL_INPUT_LEN
                then (if 0 < peak then fdiv rnd (static_cast_float (silence ! j)) peak
                      else static_cast_float (silence ! j))
                else 0)"
    by auto
  have p: "peak = 0" using att z by (auto simp: MODEL_INPUT_LEN_def)
  have "\<forall>j<512. buf ! j = 0" using nth z p by (auto simp: MODEL_INPUT_LEN_def)
  then have "buf = replicate 512 0" using l by (simp add: list_eq_iff_nth_eq)
  then show ?thesis using r p by simp
qed

lemma core_empty: "run_core ''/data/model.tflite'' [] 0 = Inl OutOfBoundsRead"
  by (simp add: run_core_def open_processor_def init_model run_defs normalize_empty sizeof_float_def nullptr_def)

lemma core_negative: "run_core ''/data/model.tflite'' [] (- 1) = Inl LengthError"
  by (simp add: run_core_def open_processor_def init_model run_defs normalize_negative sizeof_float_def nullptr_def)

lemma core_short: "run_core ''/data/model.tflite'' [100] 1 = Inl OutOfBoundsRead"
  by (simp add: run_core_def open_processor_def init_model run_defs normalize_one sizeof_float_def nullptr_def)

lemma core_broken: "run_core ''/data/broken.tflite'' silence 512 = Inl NullPointerWrite"
  by (simp add: run_core_def open_processor_def init_broken run_defs normalize_silence sizeof_float_def nullptr_def)

lemma core_missing: "run_core ''/nonexistent'' silence 512 = Inl InvalidPointer"
  by (simp add: run_core_def open_processor_def init_missing run_defs normalize_silence sizeof_float_def nullptr_def)

lemma close_missing: "close_once ''/nonexistent'' = Inl InvalidPointer"
  by (simp add: close_once_def init_missing close_defs LOGI_def nullptr_def)

lemma close_model_once: "map_sum id fst (close_once ''/data/model.tflite'') = Inr 4096"
  by (simp add: close_once_def init_model close_defs LOGI_def nullptr_def)

lemma close_model_twice: "close_twice ''/data/model.tflite'' = Inl InvalidPointer"
  by (simp add: close_twice_def close_once_def init_model close_defs LOGI_def nullptr_def)


lemma report_square:
  "run_report ''/data/square.tflite'' silence 512 = Inr (0, False, Some [65536, 65536])"
  by (simp add: run_report_def open_processor_def init_square run_defs normalize_silence
        sizeof_float_def nullptr_def square_def outputSize_loop.simps LOG_INFO_def
        logged_error_def)


lemma core_scalar_state:
  "\<exists>w'. run_core ''/data/scalar.tflite'' silence 512 = Inr ([1], w') \<and>
         TfLiteInterpreterGetOutputTensor w' 4099 0 =
           Inr (Some \<lparr>dims = [], bytes = 4, data = Some [1]\<rparr>)"
  by (simp add: run_core_def open_processor_def init_scalar run_defs normalize_silence
        sizeof_float_def nullptr_def detector_def outputSize_loop.simps LOG_INFO_def)

section \<open>The claims\<close>

text \<open>
  Claim C1, at a failing input. The model file \<^verbatim>\<open>/nonexistent\<close> is absent and the
  storage of the new object is not zero. The constructor leaves \<open>model\<close> null and returns
  early, but \<open>interpreter\<close> and \<open>options\<close> still hold the storage's content, which is
  not null: \<^verbatim>\<open>processAudio\<close> passes its null check and calls the library on an address
  that holds no interpreter, and the destructor deletes the same address. Neither returns
  the empty vector or releases the object.
\<close>

theorem C1_load_failure_stale_members:
  "map_sum id fst (open_processor ''/nonexistent'') =
     Inr \<lparr>model = nullptr, interpreter = interpreter stale, options = options stale\<rparr> \<and>
   interpreter stale \<noteq> nullptr \<and>
   run_core ''/nonexistent'' silence 512 = Inl InvalidPointer \<and>
   close_once ''/nonexistent'' = Inl InvalidPointer"
proof -
  have "map_sum id fst (open_processor ''/nonexistent'') =
          Inr \<lparr>model = 0, interpreter = 3735928559, options = 3735928559\<rparr>"
    by (simp add: open_processor_def init_missing)
  then show ?thesis
    by (simp add: core_missing close_missing stale_def nullptr_def)
qed

text \<open>
  Claim C2, as stated, fails on \<^verbatim>\<open>MLProcessor::processAudio\<close>: the method has no length
  check. On the processor opened from the classifier file, a call with length 0 builds an
  empty buffer and copies \<open>MODEL_INPUT_LEN\<close> floats out of it.
\<close>

theorem C2_core_length_zero_counterexample:
  "run_core ''/data/model.tflite'' [] 0 = Inl OutOfBoundsRead"
  by (rule core_empty)

text \<open>
  Claim C2, amended. The check of the length is made by the bridge: for every non-null
  handle (initialized or not), \<^verbatim>\<open>nativeProcessAudio\<close> on an array of length 0 returns an
  empty float array and logs \<^verbatim>\<open>Empty audio data array\<close>, and the native state is otherwise
  unchanged: the core is not entered, so nothing is preprocessed and no tensor is written.
\<close>

theorem nativeProcessAudio_empty_array:
  assumes "handle \<noteq> nullptr" and "NewFloatArray_ok env"
  shows "nativeProcessAudio rnd env w handle [] = Inr (Some [], LOGE w ''Empty audio data array'')"
  using assms by (simp add: nativeProcessAudio_def NewFloatArray_def)

theorem C2_bridge_rejects_empty_array_witness:
  "nativeProcessAudio (\<lambda>x. x) jni device 4096 [] =
     Inr (Some [], LOGE device ''Empty audio data array'')"
  using nativeProcessAudio_empty_array[of 4096 jni "\<lambda>x. x" device]
  by (simp add: nullptr_def jni_def)

text \<open>
  Claim C3, at a failing input. A window of one sample on the processor opened from the
  classifier file: the buffer that the preprocessing leaves has one slot, not
  \<open>MODEL_INPUT_LEN\<close>, and the copy of \<open>MODEL_INPUT_LEN\<close> floats into the input tensor reads
  outside it.
\<close>

theorem C3_short_window_overread:
  "normalize (\<lambda>x. x) [100] 1 = Inr ([1], 100) \<and>
   run_core ''/data/model.tflite'' [100] 1 = Inl OutOfBoundsRead"
  by (simp add: normalize_one core_short)

text \<open>
  Claim C4, at a failing input. For the model file whose tensors cannot be allocated the
  constructor prints the allocation error, then the success line, and leaves a non-null
  interpreter: nothing records the failure. A following \<^verbatim>\<open>processAudio\<close> on 512
  samples passes the null check, fetches the input tensor and copies into its buffer,
  which was never allocated, before any invoke is attempted.
\<close>

theorem C4_allocation_failure_not_recorded:
  "map_sum id (\<lambda>(this, w). (interpreter this \<noteq> nullptr, logs w))
      (open_processor ''/data/broken.tflite'') =
     Inr (True, [AndroidInfo ''Initializing MLProcessor with model: %s'',
                 PrintfError ''Failed to allocate tensors'',
                 PrintfInfo ''Model loaded successfully from %s'']) \<and>
   run_core ''/data/broken.tflite'' silence 512 = Inl NullPointerWrite"
  by (simp add: open_processor_def init_broken core_broken nullptr_def)

text \<open>
  Claim C5. For a window of \<open>len \<ge> 0\<close> samples (the array holds at least the
  \<open>min len MODEL_INPUT_LEN\<close> samples that are read) and a rounding of the division that is
  monotone and leaves 1 and -1 unchanged: the preprocessing returns a buffer of \<open>len\<close>
  slots and the peak, the largest magnitude among the first \<open>min len MODEL_INPUT_LEN\<close>
  samples (0 when there is none). For a positive peak every copied slot is the rounded
  quotient of its sample by the peak, every slot lies in [-1, 1] and the largest magnitude
  in the buffer is exactly 1. For a zero peak no division is made and the buffer is all
  zero.
\<close>

theorem normalize_peak_unit:
  assumes len: "0 \<le> len" and a: "min (nat len) MODEL_INPUT_LEN \<le> length audioData"
      and mono: "\<forall>x y. x \<le> y \<longrightarrow> rnd x \<le> rnd y" and one: "rnd 1 = 1" and mone: "rnd (- 1) = - 1"
  shows "\<exists>buf peak. normalize rnd audioData len = Inr (buf, peak) \<and> length buf = nat len \<and>
           peak = Max (insert 0 ((\<lambda>s. \<bar>static_cast_float s\<bar>) `
                      set (take (min (nat len) MODEL_INPUT_LEN) audioData))) \<and>
           (if 0 < peak then
              (\<forall>i<min (nat len) MODEL_INPUT_LEN.
                  buf ! i = rnd (static_cast_float (audioData ! i) / peak)) \<and>
              (\<forall>i<nat len. min (nat len) MODEL_INPUT_LEN \<le> i \<longrightarrow> buf ! i = 0) \<and>
              (\<forall>x\<in>set buf. - 1 \<le> x \<and> x \<le> 1) \<and>
              Max (abs ` set buf) = 1
            else buf = replicate (nat len) 0)"
proof -
  let ?n = "min (nat len) MODEL_INPUT_LEN"
  from normalize_result[OF len a, of rnd] obtain buf peak where
    r: "normalize rnd audioData len = Inr (buf, peak)" and lb: "length buf = nat len"
    and lo: "0 \<le> peak"
    and ub: "\<forall>j. j < ?n \<longrightarrow> \<bar>static_cast_float (audioData ! j)\<bar> \<le> peak"
    and att: "peak = 0 \<or> (\<exists>j. j < ?n \<and> peak = \<bar>static_cast_float (audioData ! j)\<bar>)"
    and nth: "\<forall>j<nat len. buf ! j =
               (if j < ?n then (if 0 < peak then fdiv rnd (static_cast_float (audioData ! j)) peak
                      else static_cast_float (audioData ! j)) else 0)"
    by blast
  have pk: "peak = Max (insert 0 ((\<lambda>s. \<bar>static_cast_float s\<bar>) ` set (take ?n audioData)))"
    by (rule peak_is_Max[OF a lo ub att])
  have body: "if 0 < peak then
              (\<forall>i<?n. buf ! i = rnd (static_cast_float (audioData ! i) / peak)) \<and>
              (\<forall>i<nat len. ?n \<le> i \<longrightarrow> buf ! i = 0) \<and>
              (\<forall>x\<in>set buf. - 1 \<le> x \<and> x \<le> 1) \<and>
              Max (abs ` set buf) = 1
            else buf = replicate (nat len) 0"
  proof (cases "0 < peak")
    case False
    then have p0: "peak = 0" using lo by simp
    have "\<forall>j<nat len. buf ! j = 0"
    proof (intro allI impI)
      fix j assume j: "j < nat len"
      show "buf ! j = 0"
      proof (cases "j < ?n")
        case True
        then have "\<bar>static_cast_float (audioData ! j)\<bar> \<le> 0" using ub p0 by auto
        then show ?thesis using nth j True p0 by simp
      next
        case False then show ?thesis using nth j by simp
      qed
    qed
    then have "buf = replicate (nat len) 0"
      using lb by (simp add: list_eq_iff_nth_eq)
    then show ?thesis using False by simp
  next
    case True
    have q: "\<forall>i<?n. buf ! i = rnd (static_cast_float (audioData ! i) / peak)"
      using nth True by (auto simp: fdiv_def)
    have z: "\<forall>i<nat len. ?n \<le> i \<longrightarrow> buf ! i = 0"
      using nth by auto
    have bound: "\<And>i. i < nat len \<Longrightarrow> - 1 \<le> buf ! i \<and> buf ! i \<le> 1"
    proof -
      fix i assume i: "i < nat len"
      show "- 1 \<le> buf ! i \<and> buf ! i \<le> 1"
      proof (cases "i < ?n")
        case False then show ?thesis using z i by simp
      next
        case inside: True
        let ?x = "static_cast_float (audioData ! i)"
        have "\<bar>?x\<bar> \<le> peak" using ub inside by blast
        then have "- 1 \<le> ?x / peak" "?x / peak \<le> 1"
          using True by (simp_all add: pos_le_divide_eq pos_divide_le_eq abs_le_iff) 
        then have "rnd (- 1) \<le> rnd (?x / peak)" "rnd (?x / peak) \<le> rnd 1"
          using mono by blast+
        then show ?thesis using q inside one mone by simp
      qed
    qed
    have inr: "\<forall>x\<in>set buf. - 1 \<le> x \<and> x \<le> 1"
      using bound lb by (auto simp: in_set_conv_nth)
    from att True obtain j where j: "j < ?n" "peak = \<bar>static_cast_float (audioData ! j)\<bar>"
      by auto
    let ?y = "static_cast_float (audioData ! j)"
    have "?y / peak = 1 \<or> ?y / peak = - 1"
      using j True by (cases "0 \<le> ?y") auto
    then have "\<bar>buf ! j\<bar> = 1" using q j one mone by auto
    moreover have jl: "j < length buf" using j lb by simp
    ultimately have mem: "1 \<in> abs ` set buf"
      by (metis image_eqI nth_mem)
    have "Max (abs ` set buf) = 1"
    proof (rule Max_eqI)
      show "finite (abs ` set buf)" by simp
    next
      fix y assume "y \<in> abs ` set buf"
      then show "y \<le> 1" using inr by auto
    next
      show "1 \<in> abs ` set buf" by (rule mem)
    qed
    then show ?thesis using True q z inr by simp
  qed
  show ?thesis using r lb pk body by blast
qed

theorem normalize_peak_unit_witness:
  "normalize (\<lambda>x. x) [3, - 6, 2] 2 = Inr ([1 / 2, - 1], 6) \<and> Max (abs ` set [1 / 2, - 1 :: real]) = 1"
proof -
  have "\<exists>buf peak. normalize (\<lambda>x. x) [3, - 6, 2] 2 = Inr (buf, peak) \<and> length buf = nat 2 \<and>
           peak = Max (insert 0 ((\<lambda>s. \<bar>static_cast_float s\<bar>) `
                      set (take (min (nat 2) MODEL_INPUT_LEN) [3, - 6, 2]))) \<and>
           (if 0 < peak then
              (\<forall>i<min (nat 2) MODEL_INPUT_LEN.
                  buf ! i = (\<lambda>x. x) (static_cast_float ([3, - 6, 2] ! i) / peak)) \<and>
              (\<forall>i<nat 2. min (nat 2) MODEL_INPUT_LEN \<le> i \<longrightarrow> buf ! i = 0) \<and>
              (\<forall>x\<in>set buf. - 1 \<le> x \<and> x \<le> 1) \<and>
              Max (abs ` set buf) = 1
            else buf = replicate (nat 2) 0)"
    by (rule normalize_peak_unit) (simp_all add: MODEL_INPUT_LEN_def)
  then obtain buf peak where
    r: "normalize (\<lambda>x. x) [3, - 6, 2] 2 = Inr (buf, peak)"
    and l: "length buf = nat 2"
    and p: "peak = Max (insert 0 ((\<lambda>s. \<bar>static_cast_float s\<bar>) `
                      set (take (min (nat 2) MODEL_INPUT_LEN) [3, - 6, 2])))"
    and b: "if 0 < peak then
              (\<forall>i<min (nat 2) MODEL_INPUT_LEN.
                  buf ! i = (\<lambda>x. x) (static_cast_float ([3, - 6, 2] ! i) / peak)) \<and>
              (\<forall>i<nat 2. min (nat 2) MODEL_INPUT_LEN \<le> i \<longrightarrow> buf ! i = 0) \<and>
              (\<forall>x\<in>set buf. - 1 \<le> x \<and> x \<le> 1) \<and>
              Max (abs ` set buf) = 1
            else buf = replicate (nat 2) 0"
    by blast
  have t: "take (min (nat 2) MODEL_INPUT_LEN) [3, - 6, 2 :: int16] = [3, - 6]"
    by (simp add: MODEL_INPUT_LEN_def numeral_2_eq_2)
  have pk: "peak = 6"
    unfolding p t by (simp add: static_cast_float_def)
  have n: "min (nat 2) MODEL_INPUT_LEN = 2" by (simp add: MODEL_INPUT_LEN_def)
  from b have q: "\<forall>i<2. buf ! i = static_cast_float ([3, - 6, 2] ! i) / 6"
    and m: "Max (abs ` set buf) = 1"
    unfolding pk n by simp_all
  have "buf ! 0 = 1 / 2" using q[rule_format, of 0] by (simp add: static_cast_float_def)
  moreover have "buf ! Suc 0 = - 1"
    using q[rule_format, of "Suc 0"] by (simp add: static_cast_float_def)
  moreover have "length buf = Suc (Suc 0)" using l by simp
  ultimately have e: "buf = [1 / 2, - 1]"
    by (simp add: list_eq_iff_nth_eq less_Suc_eq)
  show ?thesis using r m unfolding e pk by simp
qed




text \<open>
  Claim C7, as stated, fails: the handle is the raw address and nothing records that it
  was closed. On the processor opened from the classifier file the first close succeeds
  and the second deletes an address that holds no object.
\<close>

theorem C7_double_close_counterexample:
  "map_sum id fst (close_once ''/data/model.tflite'') = Inr 4096 \<and>
   close_twice ''/data/model.tflite'' = Inl InvalidPointer"
  by (simp add: close_model_once close_model_twice)

text \<open>
  Claim C7, amended. Closing the null handle changes nothing but the log, which gets the
  line \<^verbatim>\<open>Attempted to close invalid processor handle\<close>. Closing a non-null handle of
  a live processor whose non-null members are live objects returns, and the processor is
  no longer live afterwards; another close of that handle is a delete of an address that
  holds no object.
\<close>

theorem nativeClose_once:
  "nativeClose w nullptr = Inr (LOGE w ''Attempted to close invalid processor handle'') \<and>
   (handle \<noteq> nullptr \<and> procs w handle = Some this \<and> owns_live w this \<longrightarrow>
      (\<exists>w'. nativeClose w handle = Inr w' \<and> procs w' handle = None \<and>
            nativeClose w' handle = Inl InvalidPointer))"
  by (auto simp: close_defs owns_live_def LOGI_def LOGE_def split: option.splits)

theorem C7_close_once_witness:
  "nativeClose device nullptr =
     Inr (LOGE device ''Attempted to close invalid processor handle'') \<and>
   (\<exists>w'. close_once ''/data/model.tflite'' = Inr (4096, w') \<and> procs w' 4096 = None)"
proof -
  obtain w where i: "nativeInit jni stale device ''/data/model.tflite'' = Inr (4096, w)"
    and p: "procs w 4096 = Some \<lparr>model = 4097, interpreter = 4099, options = 4098\<rparr>"
    and o: "owns_live w \<lparr>model = 4097, interpreter = 4099, options = 4098\<rparr>"
    by (simp add: init_model owns_live_def)
  have n: "(4096::nat) \<noteq> nullptr" by (simp add: nullptr_def)
  from nativeClose_once[of device 4096 "\<lparr>model = 4097, interpreter = 4099, options = 4098\<rparr>"]
  have a: "nativeClose device nullptr =
     Inr (LOGE device ''Attempted to close invalid processor handle'')" by blast
  from nativeClose_once[of w 4096 "\<lparr>model = 4097, interpreter = 4099, options = 4098\<rparr>"] n p o
  obtain w' where "nativeClose w 4096 = Inr w'" "procs w' 4096 = None" by blast
  then have "close_once ''/data/model.tflite'' = Inr (4096, w') \<and> procs w' 4096 = None"
    by (simp add: close_once_def i)
  then show ?thesis using a by blast
qed

text \<open>
  Claim C8, as stated, fails: a negative length reaches the constructor of the buffer. On
  the processor opened from the classifier file, length -1 ends the call with
  \<^verbatim>\<open>std::length_error\<close>.
\<close>

theorem C8_core_negative_length_counterexample:
  "run_core ''/data/model.tflite'' [] (- 1) = Inl LengthError"
  by (rule core_negative)

text \<open>
  Claim C8, amended. For every negative length \<^verbatim>\<open>processAudio\<close> returns the empty
  vector exactly when the interpreter member is null or the interpreter has no input
  tensor; in every other case with a live interpreter the buffer constructor throws
  \<^verbatim>\<open>std::length_error\<close>, before any sample is read, any tensor is written or the
  interpreter is invoked.
\<close>

theorem processAudio_negative_length:
  assumes "len < 0"
  shows "processAudio rnd this w audioData len =
           (if interpreter this = nullptr
            then Inr ([], LOG_ERROR w ''Interpreter not initialized'')
            else
              (case TfLiteInterpreterGetInputTensor w (interpreter this) 0 of
                 Inl e \<Rightarrow> Inl e
               | Inr None \<Rightarrow> Inr ([], LOG_ERROR w ''Failed to get input tensor'')
               | Inr (Some inputTensor) \<Rightarrow> Inl LengthError))"
  using assms
  by (simp add: processAudio_def normalize_negative split: sum.splits option.splits)

theorem C8_negative_length_witness:
  "run_core ''/data/model.tflite'' [1, 2] (- 5) = Inl LengthError"
proof -
  have "\<And>this w. processAudio (\<lambda>x. x) this w [1, 2] (- 5) =
           (if interpreter this = nullptr
            then Inr ([], LOG_ERROR w ''Interpreter not initialized'')
            else
              (case TfLiteInterpreterGetInputTensor w (interpreter this) 0 of
                 Inl e \<Rightarrow> Inl e
               | Inr None \<Rightarrow> Inr ([], LOG_ERROR w ''Failed to get input tensor'')
               | Inr (Some inputTensor) \<Rightarrow> Inl LengthError))"
    by (rule processAudio_negative_length) simp
  then show ?thesis
    by (simp add: run_core_def open_processor_def init_model nullptr_def
          TfLiteInterpreterGetInputTensor_def)
qed

text \<open>
  Claim C9. Two calls on the same processor and the same state, with lengths above
  \<open>MODEL_INPUT_LEN\<close> and arrays that agree on their first \<open>MODEL_INPUT_LEN\<close> samples, have
  the same outcome: the same fault, or the same vector and the same state (which holds the
  input tensor that was written).
\<close>

theorem processAudio_first_samples:
  assumes "int MODEL_INPUT_LEN < len1" and "int MODEL_INPUT_LEN < len2"
      and "take MODEL_INPUT_LEN audioData1 = take MODEL_INPUT_LEN audioData2"
  shows "processAudio rnd this w audioData1 len1 = processAudio rnd this w audioData2 len2"
proof -
  from normalize_prefix[OF assms, of rnd]
  show ?thesis
  proof
    assume "normalize rnd audioData1 len1 = Inl OutOfBoundsRead \<and>
            normalize rnd audioData2 len2 = Inl OutOfBoundsRead"
    then show ?thesis
      by (simp add: processAudio_def split: sum.splits option.splits)
  next
    assume "\<exists>b1 b2 p. normalize rnd audioData1 len1 = Inr (b1, p) \<and>
              normalize rnd audioData2 len2 = Inr (b2, p) \<and>
              MODEL_INPUT_LEN \<le> length b1 \<and> MODEL_INPUT_LEN \<le> length b2 \<and>
              take MODEL_INPUT_LEN b1 = take MODEL_INPUT_LEN b2"
    then obtain b1 b2 p where
      r: "normalize rnd audioData1 len1 = Inr (b1, p)" "normalize rnd audioData2 len2 = Inr (b2, p)"
      and c: "MODEL_INPUT_LEN \<le> length b1" "MODEL_INPUT_LEN \<le> length b2"
         "take MODEL_INPUT_LEN b1 = take MODEL_INPUT_LEN b2"
      by blast
    show ?thesis
      by (simp add: processAudio_def r CopyFromBuffer_prefix[OF c] split: sum.splits option.splits)
  qed
qed

theorem C9_first_samples_witness:
  "run_core ''/data/model.tflite'' (silence @ [1]) 513 =
   run_core ''/data/model.tflite'' (silence @ [7, 7]) 514"
proof -
  have "\<And>this w. processAudio (\<lambda>x. x) this w (silence @ [1]) 513 =
                  processAudio (\<lambda>x. x) this w (silence @ [7, 7]) 514"
    by (rule processAudio_first_samples) (simp_all add: MODEL_INPUT_LEN_def silence_def)
  then show ?thesis by (simp add: run_core_def split: sum.splits)
qed

text \<open>
  Claim C10, as stated, fails where the product of the dimension sizes is a multiple of
  \<open>2^32\<close>. For an output tensor of shape 65536 x 65536 the call succeeds (no error line is
  printed, the output tensor is there) and returns the empty vector, and no dimension is 0.
\<close>

theorem C10_wrapped_to_zero_counterexample:
  "run_report ''/data/square.tflite'' silence 512 = Inr (0, False, Some [65536, 65536]) \<and>
   0 \<notin> set [65536, 65536 :: int]"
  by (simp add: report_square)

text \<open>
  Claim C10, amended. A call of \<^verbatim>\<open>processAudio\<close> that returns either took a failure branch
  (it printed an error line and its vector is empty), or it printed none and its vector has
  one slot when the output tensor has rank 0, and is empty only when the product of the
  dimension sizes, computed in 32-bit \<^verbatim>\<open>int\<close> arithmetic, is 0: for a product in the range
  of \<^verbatim>\<open>int\<close>, only when some dimension of the output tensor is 0.
\<close>

theorem processAudio_empty_only_on_failure:
  assumes "processAudio rnd this w audioData len = Inr (result, w')"
  shows "(logged_error w w' \<and> result = []) \<or>
         (\<not> logged_error w w' \<and>
          (\<exists>t. TfLiteInterpreterGetOutputTensor w' (interpreter this) 0 = Inr (Some t) \<and>
               (dims t = [] \<longrightarrow> length result = 1) \<and>
               (result = [] \<longrightarrow> wrap_int (prod_list (dims t)) = 0) \<and>
               (result = [] \<and> INT_MIN \<le> prod_list (dims t) \<and> prod_list (dims t) \<le> INT_MAX
                  \<longrightarrow> 0 \<in> set (dims t))))"
proof -
  from processAudio_cases[OF assms] show ?thesis
  proof
    assume "result = [] \<and> logged_error w w'" then show ?thesis by simp
  next
    assume a: "\<not> logged_error w w' \<and>
          (\<exists>t. TfLiteInterpreterGetOutputTensor w' (interpreter this) 0 = Inr (Some t) \<and>
               0 \<le> outputSize_loop t 0 1 \<and> length result = nat (outputSize_loop t 0 1))"
    then obtain t where
      t: "TfLiteInterpreterGetOutputTensor w' (interpreter this) 0 = Inr (Some t)"
      and n: "0 \<le> wrap_int (prod_list (dims t))"
             "length result = nat (wrap_int (prod_list (dims t)))"
      by (auto simp: outputSize_loop_prod)
    have r0: "dims t = [] \<longrightarrow> length result = 1" using n by (simp add: wrap_int_one)
    have z: "result = [] \<longrightarrow> wrap_int (prod_list (dims t)) = 0"
    proof
      assume "result = []"
      then have "nat (wrap_int (prod_list (dims t))) = 0" using n(2) by simp
      then show "wrap_int (prod_list (dims t)) = 0" using n(1) by simp
    qed
    have "result = [] \<and> INT_MIN \<le> prod_list (dims t) \<and> prod_list (dims t) \<le> INT_MAX
                  \<longrightarrow> 0 \<in> set (dims t)"
    proof
      assume h: "result = [] \<and> INT_MIN \<le> prod_list (dims t) \<and> prod_list (dims t) \<le> INT_MAX"
      then have "prod_list (dims t) = 0" using z by (simp add: wrap_int_in_range)
      then show "0 \<in> set (dims t)" by (simp add: prod_list_zero_iff)
    qed
    then show ?thesis using t a r0 z by blast
  qed
qed

theorem C10_rank_zero_witness:
  "map_sum id fst (run_core ''/data/scalar.tflite'' silence 512) = Inr [1] \<and>
   length [1 :: real] = 1"
proof -
  obtain w where op: "open_processor ''/data/scalar.tflite'' =
          Inr (\<lparr>model = 4097, interpreter = 4099, options = 4098\<rparr>, w)"
    by (simp add: open_processor_def init_scalar)
  obtain w' where run: "run_core ''/data/scalar.tflite'' silence 512 = Inr ([1], w')"
    and out: "TfLiteInterpreterGetOutputTensor w' 4099 0 =
           Inr (Some \<lparr>dims = [], bytes = 4, data = Some [1]\<rparr>)"
    using core_scalar_state by blast
  from run have pa: "processAudio (\<lambda>x. x) \<lparr>model = 4097, interpreter = 4099, options = 4098\<rparr> w
                       silence 512 = Inr ([1], w')"
    by (simp add: run_core_def op)
  from processAudio_empty_only_on_failure[OF pa] out
  have "length [1 :: real] = 1" by auto
  then show ?thesis using run by simp
qed

end
